theory Spec2Isabelle
  imports Complex_Main
begin

section \<open>Fraud-detection backend: the consumer pipeline of \<open>src/backend/server.js\<close>\<close>

text \<open>
  The development embeds the Kafka message handler (\<open>eachMessage\<close>, lines 65--181), the
  review endpoint (\<open>app.put('/api/alerts/:alertId')\<close>, lines 245--267), the start-up
  block (lines 55--187) and the two schemas (lines 11--37) of \<open>server.js\<close>.

  Numbers: a number is the \<open>rat\<close> that a finite double denotes.  A decimal literal of
  the source denotes the double nearest to it, and \<open>+\<close> on numbers is the binary64
  addition, rounded to nearest with ties to even; both are written out below.  The
  infinities and \<open>NaN\<close> are not values of the model: a sum of at most eleven weights
  stays far from overflow.

  The JavaScript runtime and the two client libraries are not part of the repository.
  What the handler asks of them is collected in the record \<open>world\<close> below: the clock, the
  date parser, the host's local hour, the rendering of numbers, the random suffix of an
  alert identifier, and whether the document store carries out a write.
\<close>

subsection \<open>Values produced by \<open>JSON.parse\<close>\<close>

datatype json =
    JNull
  | JBool bool
  | JNum rat
  | JStr string
  | JArr "json list"
  | JObj "(string \<times> json) list"

text \<open>
  A property read \<open>v.k\<close> on a non-null value; \<open>None\<close> is \<open>undefined\<close>.  None of the
  property names the handler reads exists on the prototypes of numbers, strings,
  booleans or arrays, so only objects answer.  The key list of a parsed object has no
  duplicates.
\<close>

fun field :: "json \<Rightarrow> string \<Rightarrow> json option" where
  "field (JObj kvs) k = map_of kvs k"
| "field v k = None"

text \<open>\<open>v?.k\<close>: \<open>undefined\<close> when \<open>v\<close> is \<open>undefined\<close> or \<open>null\<close>.\<close>

fun opt_field :: "json option \<Rightarrow> string \<Rightarrow> json option" where
  "opt_field None k = None"
| "opt_field (Some JNull) k = None"
| "opt_field (Some v) k = field v k"

text \<open>JavaScript truthiness (\<open>ToBoolean\<close>) of a possibly undefined JSON value.\<close>

fun truthy :: "json option \<Rightarrow> bool" where
  "truthy None = False"
| "truthy (Some JNull) = False"
| "truthy (Some (JBool b)) = b"
| "truthy (Some (JNum x)) = (x \<noteq> 0)"
| "truthy (Some (JStr s)) = (s \<noteq> [])"
| "truthy (Some (JArr xs)) = True"
| "truthy (Some (JObj kvs)) = True"

text \<open>\<open>a || b\<close>\<close>

definition js_or :: "json option \<Rightarrow> json option \<Rightarrow> json option" where
  "js_or a b = (if truthy a then a else b)"

text \<open>\<open>a || d\<close> where \<open>d\<close> is a literal.\<close>

definition or_default :: "json option \<Rightarrow> json \<Rightarrow> json" where
  "or_default a d = (case a of None \<Rightarrow> d | Some v \<Rightarrow> if truthy (Some v) then v else d)"

text \<open>\<open>typeof v === 'number' && p(v)\<close>\<close>

fun number_and :: "json option \<Rightarrow> (rat \<Rightarrow> bool) \<Rightarrow> bool" where
  "number_and (Some (JNum x)) p = p x"
| "number_and v p = False"

text \<open>\<open>Number.isInteger(v)\<close>\<close>

fun Number_isInteger :: "json option \<Rightarrow> bool" where
  "Number_isInteger (Some (JNum x)) = (of_int \<lfloor>x\<rfloor> = x)"
| "Number_isInteger v = False"

text \<open>\<open>s.includes(m)\<close> on strings: \<open>m\<close> occurs in \<open>s\<close> as a contiguous block.\<close>

fun String_includes :: "string \<Rightarrow> string \<Rightarrow> bool" where
  "String_includes [] m = (m = [])"
| "String_includes (c # cs) m = (take (length m) (c # cs) = m \<or> String_includes cs m)"

text \<open>
  \<open>list.includes(v)\<close> for a list of string literals: only a string value can be
  \<open>SameValueZero\<close>-equal to one of them.
\<close>

fun Array_includes :: "string list \<Rightarrow> json option \<Rightarrow> bool" where
  "Array_includes xs (Some (JStr s)) = (s \<in> set xs)"
| "Array_includes xs v = False"

subsection \<open>Binary64 arithmetic\<close>

text \<open>The number of binary digits of a natural number.\<close>

fun bit_length :: "nat \<Rightarrow> nat" where
  "bit_length n = (if n = 0 then 0 else Suc (bit_length (n div 2)))"

declare bit_length.simps [simp del]

text \<open>
  For positive \<open>x\<close>, \<open>ilog2 x\<close> is the integer \<open>e\<close> with \<open>2^e \<le> x < 2^(e+1)\<close>; it is read
  off the integer part of \<open>x\<close>, or of \<open>1 / x\<close> when \<open>x < 1\<close>.
\<close>

definition ilog2 :: "rat \<Rightarrow> int" where
  "ilog2 x =
     (if x \<ge> 1 then int (bit_length (nat \<lfloor>x\<rfloor>)) - 1
      else - int (bit_length (nat (\<lceil>1 / x\<rceil> - 1))))"

text \<open>Rounding to the nearest integer, a tie going to the even neighbour.\<close>

definition round_half_even :: "rat \<Rightarrow> int" where
  "round_half_even q =
     (if q - of_int \<lfloor>q\<rfloor> < 1 / 2 then \<lfloor>q\<rfloor>
      else if q - of_int \<lfloor>q\<rfloor> > 1 / 2 then \<lfloor>q\<rfloor> + 1
      else if even \<lfloor>q\<rfloor> then \<lfloor>q\<rfloor> else \<lfloor>q\<rfloor> + 1)"

text \<open>
  The exponent of the binade of \<open>x\<close>, not below that of the subnormal numbers, and the
  distance between neighbouring doubles there (53 significant bits).
\<close>

definition expo :: "rat \<Rightarrow> int" where
  "expo x = max (ilog2 x) (- 1022)"

definition ulp :: "rat \<Rightarrow> rat" where
  "ulp x = 2 powi (expo x - 52)"

definition round_pos :: "rat \<Rightarrow> rat" where
  "round_pos x = of_int (round_half_even (x / ulp x)) * ulp x"

text \<open>The double nearest to a rational number.\<close>

definition binary64 :: "rat \<Rightarrow> rat" where
  "binary64 x = (if x = 0 then 0 else if x < 0 then - round_pos (- x) else round_pos x)"

text \<open>\<open>x + y\<close> on numbers.\<close>

definition fadd :: "rat \<Rightarrow> rat \<Rightarrow> rat" where
  "fadd x y = binary64 (x + y)"

subsection \<open>Dates, errors and the surrounding world\<close>

text \<open>A \<open>Date\<close> object: a time value in milliseconds since the epoch, or an Invalid Date.\<close>

datatype date = Valid int | InvalidDate

datatype error = TypeError | SyntaxError | ValidationError | PersistenceFailure

record world =
  clock :: int
  Date_parse :: "string \<Rightarrow> date"
  local_hour :: "int \<Rightarrow> nat"
  Number_toString :: "rat \<Rightarrow> string"
  toLocaleString :: "rat \<Rightarrow> string"
  alert_suffix :: string
  Transaction_sink_ok :: bool
  Alert_sink_ok :: bool

text \<open>
  \<^item> \<open>clock\<close>: the time value of \<open>new Date()\<close> and \<open>Date.now()\<close> while one message or
    request is handled.
  \<^item> \<open>Date_parse s\<close>: the date the engine's parser makes of the string \<open>s\<close>.
  \<^item> \<open>local_hour t\<close>: \<open>getHours()\<close> of the valid time value \<open>t\<close> in the host's time zone.
  \<^item> \<open>Number_toString\<close>, \<open>toLocaleString\<close>: the two renderings of a number.
  \<^item> \<open>alert_suffix\<close>: the text of
    \<open>${Date.now()}${Math.random().toString(36).slice(2, 7)}\<close>.
  \<^item> \<open>Transaction_sink_ok\<close>, \<open>Alert_sink_ok\<close>: whether the document store carries out
    the write it is asked for while this message or request is handled: the connection
    holds, and the document passes those casts of the client library that are not
    written out below.  One message asks for at most one write to each collection.
\<close>

text \<open>\<open>parts.join(",")\<close> over converted elements; the first failed conversion is raised.\<close>

fun join_parts :: "(error + string) list \<Rightarrow> error + string" where
  "join_parts [] = Inr []"
| "join_parts [r] = r"
| "join_parts (r # r' # rs) =
     (case r of
        Inl e \<Rightarrow> Inl e
      | Inr s \<Rightarrow> (case join_parts (r' # rs) of Inl e \<Rightarrow> Inl e | Inr t \<Rightarrow> Inr (s @ '','' @ t)))"

text \<open>
  The string a template literal inserts for a value (\<open>ToString\<close>).  An object whose own
  key \<open>toString\<close> shadows the inherited method cannot be converted: the own value is
  not callable and \<open>valueOf\<close> yields no primitive, so a \<open>TypeError\<close> is raised.  Any other
  object reads \<open>[object Object]\<close>.  An array joins its elements with commas, \<open>null\<close>
  giving the empty string.
\<close>

fun String_of :: "world \<Rightarrow> json \<Rightarrow> error + string" where
  "String_of w (JStr s) = Inr s"
| "String_of w (JBool b) = Inr (if b then ''true'' else ''false'')"
| "String_of w JNull = Inr ''null''"
| "String_of w (JNum x) = Inr (Number_toString w x)"
| "String_of w (JObj kvs) =
     (if ''toString'' \<in> fst ` set kvs then Inl TypeError else Inr ''[object Object]'')"
| "String_of w (JArr xs) =
     join_parts (map (\<lambda>v. if v = JNull then Inr [] else String_of w v) xs)"

text \<open>
  \<open>TimeClip\<close>: a time value beyond \<open>8.64e15\<close> milliseconds is \<open>NaN\<close>; otherwise the
  fraction is dropped, towards zero.
\<close>

definition TimeClip :: "rat \<Rightarrow> date" where
  "TimeClip x =
     (if \<bar>x\<bar> > 8640000000000000 then InvalidDate
      else Valid (if x \<ge> 0 then \<lfloor>x\<rfloor> else \<lceil>x\<rceil>))"

text \<open>
  \<open>new Date(v)\<close> for one argument: a string is parsed, a number or boolean is a time
  value, an object or array is converted to a string first and then parsed.
\<close>

fun Date_new :: "world \<Rightarrow> json \<Rightarrow> error + date" where
  "Date_new w (JNum x) = Inr (TimeClip x)"
| "Date_new w (JStr s) = Inr (Date_parse w s)"
| "Date_new w (JBool b) = Inr (Valid (if b then 1 else 0))"
| "Date_new w JNull = Inr (Valid 0)"
| "Date_new w (JArr xs) =
     (case String_of w (JArr xs) of Inl e \<Rightarrow> Inl e | Inr s \<Rightarrow> Inr (Date_parse w s))"
| "Date_new w (JObj kvs) =
     (case String_of w (JObj kvs) of Inl e \<Rightarrow> Inl e | Inr s \<Rightarrow> Inr (Date_parse w s))"

text \<open>\<open>d.getHours()\<close>: \<open>None\<close> is \<open>NaN\<close>, the answer of an Invalid Date.\<close>

fun getHours :: "world \<Rightarrow> date \<Rightarrow> nat option" where
  "getHours w (Valid t) = Some (local_hour w t)"
| "getHours w InvalidDate = None"

subsection \<open>Rule evaluation (lines 77--141)\<close>

record indicator =
  code :: string
  message :: string

record assessment =
  score :: rat
  indicators :: "indicator list"

text \<open>
  \<open>score += wt; indicators.push({ code, message })\<close>, where \<open>wt\<close> is a decimal literal:
  the double nearest to it is added to the score in binary64.
\<close>

definition fire :: "rat \<Rightarrow> string \<Rightarrow> string \<Rightarrow> assessment \<Rightarrow> assessment" where
  "fire wt c m a =
     a\<lparr>score := fadd (score a) (binary64 wt),
       indicators := indicators a @ [\<lparr>code = c, message = m\<rparr>]\<rparr>"

definition suspiciousMerchants :: "string list" where
  "suspiciousMerchants = [''UNKNOWN_MERCHANT'', ''CRYPTO_EXCHANGE'', ''OFFSHORE_CASINO'', ''HIGH_RISK_VENDOR'']"

definition suspiciousCategories :: "string list" where
  "suspiciousCategories = [''GAMBLING'', ''CRYPTO'', ''WIRE_TRANSFER'', ''GIFT_CARDS'']"

definition suspiciousDevices :: "string list" where
  "suspiciousDevices = [''Emulator'', ''Unknown Device'', ''Rooted Android'', ''Jailbroken iPhone'']"

text \<open>Lines 80--83.  The message reads \<open>txn.location.country || 'unknown'\<close>.\<close>

definition geography_rule :: "world \<Rightarrow> json \<Rightarrow> assessment \<Rightarrow> error + assessment" where
  "geography_rule w txn a =
     (if opt_field (field txn ''location'') ''risk'' = Some (JStr ''high'') then
        (case String_of w (or_default (opt_field (field txn ''location'') ''country'') (JStr ''unknown'')) of
           Inl e \<Rightarrow> Inl e
         | Inr s \<Rightarrow> Inr (fire 0.5 ''HIGH_RISK_GEOGRAPHY'' (''High risk geography: '' @ s) a))
      else Inr a)"

text \<open>Lines 85--88.\<close>

definition cvv_rule :: "json \<Rightarrow> assessment \<Rightarrow> assessment" where
  "cvv_rule txn a =
     (if field txn ''cvvMatch'' = Some (JBool False)
      then fire 0.3 ''CVV_VERIFICATION_FAILED'' ''CVV verification failed'' a else a)"

text \<open>Lines 90--93.\<close>

definition avs_rule :: "json \<Rightarrow> assessment \<Rightarrow> assessment" where
  "avs_rule txn a =
     (if field txn ''avsMatch'' = Some (JBool False)
      then fire 0.15 ''ADDRESS_VERIFICATION_FAILED'' ''Address verification failed'' a else a)"

text \<open>
  Lines 95--101: an \<open>if\<close> / \<open>else if\<close> pair.  The rupee sign of the two messages is
  written \<open>Rs\<close> here.
\<close>

definition amount_text :: "world \<Rightarrow> json option \<Rightarrow> string" where
  "amount_text w v = (case v of Some (JNum x) \<Rightarrow> toLocaleString w x | _ \<Rightarrow> [])"

definition amount_rule :: "world \<Rightarrow> json \<Rightarrow> assessment \<Rightarrow> assessment" where
  "amount_rule w txn a =
     (if number_and (field txn ''amount'') (\<lambda>x. x > 100000) then
        fire 0.2 ''UNUSUAL_TRANSACTION_AMOUNT''
          (''High amount: Rs'' @ amount_text w (field txn ''amount'')) a
      else if number_and (field txn ''amount'') (\<lambda>x. x > 50000) then
        fire 0.1 ''UNUSUAL_TRANSACTION_AMOUNT''
          (''Medium amount: Rs'' @ amount_text w (field txn ''amount'')) a
      else a)"

text \<open>Lines 103--107.\<close>

definition merchant_matches :: "json option \<Rightarrow> bool" where
  "merchant_matches v =
     (case v of Some (JStr s) \<Rightarrow> list_ex (String_includes s) suspiciousMerchants | _ \<Rightarrow> False)"

definition merchant_rule :: "json \<Rightarrow> assessment \<Rightarrow> assessment" where
  "merchant_rule txn a =
     (if merchant_matches (field txn ''merchant'') then
        fire 0.3 ''HIGH_RISK_MERCHANT''
          (''Suspicious merchant: '' @ (case field txn ''merchant'' of Some (JStr s) \<Rightarrow> s | _ \<Rightarrow> [])) a
      else a)"

text \<open>Lines 109--113.\<close>

definition category_rule :: "json \<Rightarrow> assessment \<Rightarrow> assessment" where
  "category_rule txn a =
     (if Array_includes suspiciousCategories (field txn ''category'') then
        fire 0.25 ''HIGH_RISK_MERCHANT_CATEGORY''
          (''Category: '' @ (case field txn ''category'' of Some (JStr s) \<Rightarrow> s | _ \<Rightarrow> [])) a
      else a)"

text \<open>Lines 115--119.\<close>

definition device_rule :: "json \<Rightarrow> assessment \<Rightarrow> assessment" where
  "device_rule txn a =
     (if Array_includes suspiciousDevices (field txn ''device'')
      then fire 0.2 ''SUSPICIOUS_DEVICE'' ''Suspicious device detected'' a else a)"

text \<open>Lines 121--124.\<close>

definition network_rule :: "json \<Rightarrow> assessment \<Rightarrow> assessment" where
  "network_rule txn a =
     (if truthy (field txn ''isVPN'') \<or> truthy (field txn ''isTor'') then
        fire 0.15 ''VPN_OR_PROXY_DETECTED''
          (if truthy (field txn ''isTor'') then ''Tor network detected'' else ''VPN/proxy detected'') a
      else a)"

text \<open>Lines 126--129.\<close>

definition declines_rule :: "world \<Rightarrow> json \<Rightarrow> assessment \<Rightarrow> assessment" where
  "declines_rule w txn a =
     (if Number_isInteger (field txn ''previousDeclines'')
         \<and> number_and (field txn ''previousDeclines'') (\<lambda>x. x \<ge> 3) then
        fire 0.3 ''CARD_TESTING_PATTERN''
          (''Previous declines: '' @
             (case field txn ''previousDeclines'' of Some (JNum x) \<Rightarrow> Number_toString w x | _ \<Rightarrow> [])) a
      else a)"

text \<open>Lines 131--134.\<close>

definition account_age_rule :: "json \<Rightarrow> assessment \<Rightarrow> assessment" where
  "account_age_rule txn a =
     (if number_and (field txn ''accountAge'') (\<lambda>x. x < 30)
      then fire 0.1 ''NEW_ACCOUNT_RISK'' ''New account risk'' a else a)"

text \<open>
  Line 136: \<open>txn.timestamp ? new Date(txn.timestamp) : new Date()\<close>.  The test is
  truthiness of the field; nothing checks that the constructed date is valid.
\<close>

definition txnTime :: "world \<Rightarrow> json \<Rightarrow> error + date" where
  "txnTime w txn =
     (case field txn ''timestamp'' of
        None \<Rightarrow> Inr (Valid (clock w))
      | Some v \<Rightarrow> if truthy (Some v) then Date_new w v else Inr (Valid (clock w)))"

text \<open>Lines 137--141; both comparisons are false on \<open>NaN\<close>.\<close>

definition night :: "nat option \<Rightarrow> bool" where
  "night h = (case h of None \<Rightarrow> False | Some n \<Rightarrow> n \<ge> 23 \<or> n \<le> 5)"

definition time_rule :: "nat option \<Rightarrow> assessment \<Rightarrow> assessment" where
  "time_rule h a =
     (if night h then fire 0.08 ''UNUSUAL_TRANSACTION_TIME'' ''Night-time transaction'' a else a)"

text \<open>The rules after the first one, in source order, up to the time-of-day rule.\<close>

definition middle_rules :: "world \<Rightarrow> json \<Rightarrow> assessment \<Rightarrow> assessment" where
  "middle_rules w txn a =
     account_age_rule txn (declines_rule w txn (network_rule txn (device_rule txn
       (category_rule txn (merchant_rule txn (amount_rule w txn (avs_rule txn (cvv_rule txn a))))))))"

text \<open>
  Lines 77--141 as one function: start from \<open>score = 0\<close>, \<open>indicators = []\<close>, run the
  rules in order, resolve the transaction time, apply the time-of-day rule.  The result
  carries the resolved date because the handler stores it.
\<close>

definition evaluate :: "world \<Rightarrow> json \<Rightarrow> error + (assessment \<times> date)" where
  "evaluate w txn =
     (case geography_rule w txn \<lparr>score = 0, indicators = []\<rparr> of
        Inl e \<Rightarrow> Inl e
      | Inr a1 \<Rightarrow>
          (let a2 = middle_rules w txn a1 in
           case txnTime w txn of
             Inl e \<Rightarrow> Inl e
           | Inr d \<Rightarrow> Inr (time_rule (getHours w d) a2, d)))"

subsection \<open>Risk level (lines 143--145)\<close>

datatype riskLevel = LOW | MEDIUM | HIGH | CRITICAL

text \<open>The three thresholds are decimal literals, hence doubles.\<close>

definition classify :: "rat \<Rightarrow> riskLevel" where
  "classify s =
     (if s \<ge> binary64 0.7 then CRITICAL
      else if s \<ge> binary64 0.5 then HIGH
      else if s \<ge> binary64 0.3 then MEDIUM
      else LOW)"

subsection \<open>The two collections and the console\<close>

text \<open>
  The documents are recorded as the handler passes them to \<open>create\<close>; an absent payload
  field is \<open>None\<close> (\<open>undefined\<close>).
\<close>

record stored_txn =
  transactionId :: json
  accountId :: "json option"
  amount :: "json option"
  merchant :: "json option"
  category :: "json option"
  location :: "json option"
  mlScore :: rat
  riskLevel :: riskLevel
  fraudIndicators :: "string list"
  timestamp :: date

record alert =
  alertId :: string
  alert_transactionId :: json
  transaction :: json
  alert_mlScore :: rat
  alert_riskLevel :: riskLevel
  reasons :: "indicator list"
  status :: "string option"
  assignedTo :: "string option"
  reviewedAt :: "date option"
  action :: "string option"
  comments :: "string option"
  createdAt :: date

text \<open>The console lines, each with the values its template inserts.\<close>

datatype log_line =
    Skipping
  | Processing string
  | Result string rat riskLevel
  | TransactionSaved string
  | AlertCreated string riskLevel
  | MarkedClean string rat
  | ProcessingError error
  | UpdateFailed error

record state =
  transactions :: "stored_txn list"
  alerts :: "alert list"
  console :: "log_line list"

definition log :: "log_line \<Rightarrow> state \<Rightarrow> state" where
  "log l st = st\<lparr>console := console st @ [l]\<rparr>"

text \<open>
  \<open>await Transaction.create(doc)\<close>.  The schema (line 21) declares \<open>timestamp\<close> a \<open>Date\<close>:
  an Invalid Date does not cast, validation fails and the promise rejects before
  anything is written.  Every other reason for which the store may not carry out the
  write is \<open>Transaction_sink_ok\<close> being false; the casts of the other paths are the
  identity on values of the declared types.
\<close>

definition Transaction_create :: "world \<Rightarrow> stored_txn \<Rightarrow> state \<Rightarrow> error + state" where
  "Transaction_create w doc st =
     (if timestamp doc = InvalidDate then Inl ValidationError
      else if Transaction_sink_ok w then Inr (st\<lparr>transactions := transactions st @ [doc]\<rparr>)
      else Inl PersistenceFailure)"

text \<open>\<open>await Alert.create(doc)\<close>; the only date of the document is the schema's default.\<close>

definition Alert_create :: "world \<Rightarrow> alert \<Rightarrow> state \<Rightarrow> error + state" where
  "Alert_create w doc st =
     (if Alert_sink_ok w then Inr (st\<lparr>alerts := alerts st @ [doc]\<rparr>)
      else Inl PersistenceFailure)"

subsection \<open>The message handler (lines 65--181)\<close>

text \<open>
  What \<open>JSON.parse(message.value.toString())\<close> makes of a delivered message: a message
  without a value raises a \<open>TypeError\<close>, text that is not JSON a \<open>SyntaxError\<close>.
\<close>

datatype message = NoValue | Malformed | Payload json

fun JSON_parse :: "message \<Rightarrow> error + json" where
  "JSON_parse NoValue = Inl TypeError"
| "JSON_parse Malformed = Inl SyntaxError"
| "JSON_parse (Payload v) = Inr v"

text \<open>The object literal of lines 149--160.\<close>

definition txn_doc :: "json \<Rightarrow> json \<Rightarrow> assessment \<Rightarrow> date \<Rightarrow> stored_txn" where
  "txn_doc tid txn a d =
     \<lparr>transactionId = tid,
      accountId = field txn ''accountId'',
      amount = field txn ''amount'',
      merchant = field txn ''merchant'',
      category = field txn ''category'',
      location = field txn ''location'',
      mlScore = score a,
      riskLevel = classify (score a),
      fraudIndicators = map message (indicators a),
      timestamp = d\<rparr>"

text \<open>
  The object literal of lines 165--173, with the schema's default for \<open>createdAt\<close>
  (line 36); the four review fields are not set.
\<close>

definition alert_doc :: "world \<Rightarrow> json \<Rightarrow> json \<Rightarrow> assessment \<Rightarrow> alert" where
  "alert_doc w tid txn a =
     \<lparr>alertId = ''ALERT'' @ alert_suffix w,
      alert_transactionId = tid,
      transaction = txn,
      alert_mlScore = score a,
      alert_riskLevel = classify (score a),
      reasons = indicators a,
      status = Some ''PENDING'',
      assignedTo = None,
      reviewedAt = None,
      action = None,
      comments = None,
      createdAt = Valid (clock w)\<rparr>"

text \<open>
  Lines 149--177: the two writes.  The result pairs the state reached with the error
  raised, if any; what was written before an error stays written.  \<open>name\<close> is the
  identifier as the console templates render it.
\<close>

definition persist ::
  "world \<Rightarrow> json \<Rightarrow> string \<Rightarrow> json \<Rightarrow> assessment \<Rightarrow> date \<Rightarrow> state \<Rightarrow> state \<times> error option" where
  "persist w tid name txn a d st =
     (case Transaction_create w (txn_doc tid txn a d) st of
        Inl e \<Rightarrow> (st, Some e)
      | Inr st1 \<Rightarrow>
          (let st2 = log (TransactionSaved name) st1 in
           if score a \<ge> binary64 0.4 then
             (case Alert_create w (alert_doc w tid txn a) st2 of
                Inl e \<Rightarrow> (st2, Some e)
              | Inr st3 \<Rightarrow> (log (AlertCreated (''ALERT'' @ alert_suffix w) (classify (score a))) st3, None))
           else (log (MarkedClean name (score a)) st2, None)))"

text \<open>
  Lines 67--177, the body of the \<open>try\<close>.  Reading \<open>txn.id\<close> raises a \<open>TypeError\<close> when
  the payload is \<open>null\<close>.  The template of line 75 converts the identifier to a string,
  which raises for an identifier that has no string conversion; the later templates
  insert the same identifier.
\<close>

definition try_body :: "world \<Rightarrow> message \<Rightarrow> state \<Rightarrow> state \<times> error option" where
  "try_body w m st =
     (case JSON_parse m of
        Inl e \<Rightarrow> (st, Some e)
      | Inr txn \<Rightarrow>
          if txn = JNull then (st, Some TypeError)
          else
            (case js_or (field txn ''id'') (field txn ''transactionId'') of
               None \<Rightarrow> (log Skipping st, None)
             | Some tid \<Rightarrow>
                 if \<not> truthy (Some tid) then (log Skipping st, None)
                 else
                   (case String_of w tid of
                      Inl e \<Rightarrow> (st, Some e)
                    | Inr name \<Rightarrow>
                        (let st1 = log (Processing name) st in
                         case evaluate w txn of
                           Inl e \<Rightarrow> (st1, Some e)
                         | Inr (a, d) \<Rightarrow>
                             persist w tid name txn a d
                               (log (Result name (score a) (classify (score a))) st1)))))"

text \<open>
  How a call ends: it returns, or an exception leaves it.  \<open>eachMessage\<close> is the \<open>try\<close>
  body with the \<open>catch\<close> of lines 178--180, which logs and returns.
\<close>

datatype 'a completion = Returns 'a | Throws error 'a

definition eachMessage :: "world \<Rightarrow> message \<Rightarrow> state \<Rightarrow> state completion" where
  "eachMessage w m st =
     (case try_body w m st of
        (st', None) \<Rightarrow> Returns st'
      | (st', Some e) \<Rightarrow> Returns (log (ProcessingError e) st'))"

text \<open>
  The consume loop hands each delivered message, with the world it is handled in, to
  \<open>eachMessage\<close>; an exception leaving the handler would end the loop there.
\<close>

fun consume :: "(world \<times> message) list \<Rightarrow> state \<Rightarrow> state completion" where
  "consume [] st = Returns st"
| "consume ((w, m) # ds) st =
     (case eachMessage w m st of
        Returns st' \<Rightarrow> consume ds st'
      | Throws e st' \<Rightarrow> Throws e st')"

subsection \<open>Start-up (lines 55--187)\<close>

record transport =
  producer_connect_ok :: bool
  consumer_connect_ok :: bool
  subscribe_ok :: bool

datatype process = Running | Exited nat

text \<open>
  The three awaited calls of lines 57--59 sit in one \<open>try\<close>; its \<open>catch\<close> calls
  \<open>process.exit(1)\<close>.  Otherwise the consumer runs.
\<close>

definition startup :: "transport \<Rightarrow> process" where
  "startup t =
     (if producer_connect_ok t \<and> consumer_connect_ok t \<and> subscribe_ok t then Running
      else Exited 1)"

definition service :: "transport \<Rightarrow> (world \<times> message) list \<Rightarrow> state \<Rightarrow> process \<times> state completion" where
  "service t ds st =
     (case startup t of
        Exited n \<Rightarrow> (Exited n, Returns st)
      | Running \<Rightarrow>
          (case consume ds st of
             Returns st' \<Rightarrow> (Running, Returns st')
           | Throws e st' \<Rightarrow> (Running, Throws e st')))"

subsection \<open>Reviewing an alert (lines 245--267)\<close>

text \<open>
  The three fields read from the request body, each a string or absent (\<open>None\<close> is
  \<open>undefined\<close>).
\<close>

record review =
  review_action :: "string option"
  review_comments :: "string option"
  review_assignedTo :: "string option"

text \<open>
  One key of the update document: a key whose value is \<open>undefined\<close> is dropped by
  \<open>findOneAndUpdate\<close>, so the stored value stays.
\<close>

definition set_key :: "'a option \<Rightarrow> 'a option \<Rightarrow> 'a option" where
  "set_key v stored = (case v of None \<Rightarrow> stored | Some x \<Rightarrow> Some x)"

text \<open>The update document of lines 252--258.\<close>

definition apply_update :: "world \<Rightarrow> review \<Rightarrow> alert \<Rightarrow> alert" where
  "apply_update w r a =
     a\<lparr>status := set_key (review_action r) (status a),
       action := set_key (review_action r) (action a),
       comments := set_key (review_comments r) (comments a),
       assignedTo := set_key (review_assignedTo r) (assignedTo a),
       reviewedAt := Some (Valid (clock w))\<rparr>"

text \<open>
  \<open>findOneAndUpdate({ alertId }, update, { new: true })\<close>: the first document whose
  \<open>alertId\<close> is the given one is updated and returned as updated; \<open>None\<close> is \<open>null\<close>.
\<close>

fun findOneAndUpdate :: "string \<Rightarrow> (alert \<Rightarrow> alert) \<Rightarrow> alert list \<Rightarrow> alert list \<times> alert option" where
  "findOneAndUpdate aid f [] = ([], None)"
| "findOneAndUpdate aid f (a # rest) =
     (if alertId a = aid then (f a # rest, Some (f a))
      else (case findOneAndUpdate aid f rest of (rest', r) \<Rightarrow> (a # rest', r)))"

text \<open>
  The answer of the endpoint: the HTTP status, the \<open>success\<close> flag of the body and its
  \<open>data\<close> (\<open>None\<close> is \<open>null\<close>, or no \<open>data\<close> key in the body of a 500).
\<close>

record response =
  http_status :: nat
  body_success :: bool
  body_data :: "alert option"

definition put_alert :: "world \<Rightarrow> string \<Rightarrow> review \<Rightarrow> state \<Rightarrow> state \<times> response" where
  "put_alert w aid r st =
     (if Alert_sink_ok w then
        (case findOneAndUpdate aid (apply_update w r) (alerts st) of
           (rest', res) \<Rightarrow>
             (st\<lparr>alerts := rest'\<rparr>, \<lparr>http_status = 200, body_success = True, body_data = res\<rparr>))
      else
        (log (UpdateFailed PersistenceFailure) st,
         \<lparr>http_status = 500, body_success = False, body_data = None\<rparr>))"

subsection \<open>The rule table of the specification\<close>

text \<open>
  The twelve rows of the rule table, each a condition on the payload and the resolved
  local hour with its weight, written from the table and the typed data model rather
  than from the handler.  \<open>numeric\<close> and \<open>text_of\<close> read a field of numeric or string
  type.
\<close>

fun numeric :: "json option \<Rightarrow> rat option" where
  "numeric (Some (JNum x)) = Some x"
| "numeric v = None"

fun text_of :: "json option \<Rightarrow> string option" where
  "text_of (Some (JStr s)) = Some s"
| "text_of v = None"

definition geography_is_high :: "json \<Rightarrow> bool" where
  "geography_is_high txn = (opt_field (field txn ''location'') ''risk'' = Some (JStr ''high''))"

definition cvv_failed :: "json \<Rightarrow> bool" where
  "cvv_failed txn = (field txn ''cvvMatch'' = Some (JBool False))"

definition avs_failed :: "json \<Rightarrow> bool" where
  "avs_failed txn = (field txn ''avsMatch'' = Some (JBool False))"

definition amount_high :: "json \<Rightarrow> bool" where
  "amount_high txn = (case numeric (field txn ''amount'') of None \<Rightarrow> False | Some x \<Rightarrow> x > 100000)"

definition amount_medium :: "json \<Rightarrow> bool" where
  "amount_medium txn =
     (case numeric (field txn ''amount'') of None \<Rightarrow> False | Some x \<Rightarrow> 50000 < x \<and> x \<le> 100000)"

definition merchant_suspicious :: "json \<Rightarrow> bool" where
  "merchant_suspicious txn =
     (case text_of (field txn ''merchant'') of
        None \<Rightarrow> False
      | Some s \<Rightarrow> \<exists>m \<in> {''UNKNOWN_MERCHANT'', ''CRYPTO_EXCHANGE'', ''OFFSHORE_CASINO'',
                        ''HIGH_RISK_VENDOR''}. String_includes s m)"

definition category_suspicious :: "json \<Rightarrow> bool" where
  "category_suspicious txn =
     (case text_of (field txn ''category'') of
        None \<Rightarrow> False
      | Some s \<Rightarrow> s \<in> {''GAMBLING'', ''CRYPTO'', ''WIRE_TRANSFER'', ''GIFT_CARDS''})"

definition device_suspicious :: "json \<Rightarrow> bool" where
  "device_suspicious txn =
     (case text_of (field txn ''device'') of
        None \<Rightarrow> False
      | Some s \<Rightarrow> s \<in> {''Emulator'', ''Unknown Device'', ''Rooted Android'', ''Jailbroken iPhone''})"

definition vpn_or_tor :: "json \<Rightarrow> bool" where
  "vpn_or_tor txn = (truthy (field txn ''isVPN'') \<or> truthy (field txn ''isTor''))"

definition declines_at_least_3 :: "json \<Rightarrow> bool" where
  "declines_at_least_3 txn =
     (case numeric (field txn ''previousDeclines'') of None \<Rightarrow> False | Some x \<Rightarrow> x \<in> \<int> \<and> x \<ge> 3)"

definition account_is_new :: "json \<Rightarrow> bool" where
  "account_is_new txn =
     (case numeric (field txn ''accountAge'') of None \<Rightarrow> False | Some x \<Rightarrow> x < 30)"

definition hour_is_night :: "nat option \<Rightarrow> bool" where
  "hour_is_night h = (case h of None \<Rightarrow> False | Some n \<Rightarrow> n \<ge> 23 \<or> n \<le> 5)"

definition rule_table :: "((json \<Rightarrow> nat option \<Rightarrow> bool) \<times> rat) list" where
  "rule_table =
     [(\<lambda>txn h. geography_is_high txn, 0.50),
      (\<lambda>txn h. cvv_failed txn, 0.30),
      (\<lambda>txn h. avs_failed txn, 0.15),
      (\<lambda>txn h. amount_high txn, 0.20),
      (\<lambda>txn h. amount_medium txn, 0.10),
      (\<lambda>txn h. merchant_suspicious txn, 0.30),
      (\<lambda>txn h. category_suspicious txn, 0.25),
      (\<lambda>txn h. device_suspicious txn, 0.20),
      (\<lambda>txn h. vpn_or_tor txn, 0.15),
      (\<lambda>txn h. declines_at_least_3 txn, 0.30),
      (\<lambda>txn h. account_is_new txn, 0.10),
      (\<lambda>txn h. hour_is_night h, 0.08)]"

text \<open>The weights of the rows whose condition holds, in table order.\<close>

definition matching_weights :: "json \<Rightarrow> nat option \<Rightarrow> rat list" where
  "matching_weights txn h = map snd (filter (\<lambda>r. fst r txn h) rule_table)"

definition computed_score :: "world \<Rightarrow> json \<Rightarrow> rat option" where
  "computed_score w txn = (case evaluate w txn of Inl e \<Rightarrow> None | Inr (a, d) \<Rightarrow> Some (score a))"

text \<open>
  The effective timestamp as the specification words it: the payload's \<open>timestamp\<close> when
  present and parseable, the processing time otherwise.
\<close>

definition effective_timestamp_spec :: "world \<Rightarrow> json \<Rightarrow> date" where
  "effective_timestamp_spec w txn =
     (case field txn ''timestamp'' of
        None \<Rightarrow> Valid (clock w)
      | Some v \<Rightarrow> (case Date_new w v of Inr (Valid t) \<Rightarrow> Valid t | _ \<Rightarrow> Valid (clock w)))"



text \<open>
  An answer that reports the alert as not found: one that does not claim success.
\<close>

definition not_found_outcome :: "response \<Rightarrow> bool" where
  "not_found_outcome r = (\<not> body_success r \<or> http_status r = 404)"

text \<open>
  A step of the accumulation: the double of the weight \<open>wt\<close> is added when the condition
  holds.  \<open>accumulate\<close> adds the doubles of a list of weights from left to right,
  starting from 0.
\<close>

definition add_if :: "bool \<Rightarrow> rat \<Rightarrow> rat \<Rightarrow> rat" where
  "add_if c wt s = (if c then fadd s (binary64 wt) else s)"

definition accumulate :: "rat list \<Rightarrow> rat" where
  "accumulate ws = foldl fadd 0 (map binary64 ws)"

subsection \<open>Sample hosts and payloads\<close>

text \<open>
  A host in UTC handling a message at 2023-11-15 12:00:00Z, with a store that carries
  out every write.  Its date parser knows one ISO string (02:30 at night) and rejects
  the rest; it renders every number as \<open>#\<close>.  Rendered numbers occur only inside
  indicator messages.
\<close>

definition day_world :: world where
  "day_world =
     \<lparr>clock = 1700049600000,
      Date_parse = (\<lambda>s. if s = ''2024-01-15T02:30:00Z'' then Valid 1705285800000 else InvalidDate),
      local_hour = (\<lambda>t. nat ((t div 3600000) mod 24)),
      Number_toString = (\<lambda>x. ''#''),
      toLocaleString = (\<lambda>x. ''#''),
      alert_suffix = ''1700049600000k3x9q'',
      Transaction_sink_ok = True,
      Alert_sink_ok = True\<rparr>"

text \<open>The same host at 02:00:00Z, and with a store that refuses transaction writes.\<close>

definition night_world :: world where
  "night_world = day_world\<lparr>clock := 1700013600000\<rparr>"

definition refusing_world :: world where
  "refusing_world = day_world\<lparr>Transaction_sink_ok := False\<rparr>"

definition empty_state :: state where
  "empty_state = \<lparr>transactions = [], alerts = [], console = []\<rparr>"

text \<open>
  The payload of the specification's worked example as it is written, and with an
  identifier added.
\<close>

definition example_payload :: json where
  "example_payload =
     JObj [(''location'', JObj [(''risk'', JStr ''high'')]),
           (''cvvMatch'', JBool False),
           (''amount'', JNum 150000)]"

definition identified_example_payload :: json where
  "identified_example_payload =
     JObj [(''id'', JStr ''t0''),
           (''location'', JObj [(''risk'', JStr ''high'')]),
           (''cvvMatch'', JBool False),
           (''amount'', JNum 150000)]"

text \<open>A payload on which the CVV and the address rule fire, nominally 0.30 + 0.15.\<close>

definition cvv_avs_payload :: json where
  "cvv_avs_payload =
     JObj [(''id'', JStr ''t8''), (''cvvMatch'', JBool False), (''avsMatch'', JBool False)]"

text \<open>Identified payloads scoring 0.40 and 0.30, and one without an identifier.\<close>

definition threshold_payload :: json where
  "threshold_payload =
     JObj [(''id'', JStr ''t1''), (''cvvMatch'', JBool False), (''amount'', JNum 75000)]"

definition quiet_payload :: json where
  "quiet_payload = JObj [(''transactionId'', JStr ''t2''), (''cvvMatch'', JBool False)]"

definition anonymous_payload :: json where
  "anonymous_payload = JObj [(''cvvMatch'', JBool False), (''amount'', JNum 150000)]"



text \<open>
  The 0.40 payload with a \<open>timestamp\<close> that is present but denotes no date, and a payload
  with a parseable one.
\<close>

definition garbled_time_payload :: json where
  "garbled_time_payload =
     JObj [(''id'', JStr ''t3''), (''cvvMatch'', JBool False), (''amount'', JNum 75000),
           (''timestamp'', JStr ''garbage'')]"

definition night_time_payload :: json where
  "night_time_payload = JObj [(''id'', JStr ''t4''), (''timestamp'', JStr ''2024-01-15T02:30:00Z'')]"

text \<open>Payloads with an amount and a decline count of the wrong type.\<close>

definition string_amount_payload :: json where
  "string_amount_payload = JObj [(''id'', JStr ''t5''), (''amount'', JStr ''150000'')]"

definition fractional_declines_payload :: json where
  "fractional_declines_payload = JObj [(''id'', JStr ''t6''), (''previousDeclines'', JNum 3.5)]"

text \<open>The state in which a call ends, however it ends.\<close>

fun outcome :: "'a completion \<Rightarrow> 'a" where
  "outcome (Returns s) = s"
| "outcome (Throws e s) = s"

text \<open>
  Five deliveries: a message without a value, one that is not JSON, the payload \<open>null\<close>,
  an identified payload while the store refuses the write, and an identified payload
  handled normally.  A transport whose producer cannot connect.
\<close>

definition sample_deliveries :: "(world \<times> message) list" where
  "sample_deliveries =
     [(day_world, NoValue),
      (day_world, Malformed),
      (day_world, Payload JNull),
      (refusing_world, Payload threshold_payload),
      (day_world, Payload quiet_payload)]"

definition unreachable_transport :: transport where
  "unreachable_transport =
     \<lparr>producer_connect_ok = False, consumer_connect_ok = True, subscribe_ok = True\<rparr>"

text \<open>
  A payload that triggers every rule that can fire together, and the double its score
  adds up to (printed \<open>2.5300000000000002\<close>).
\<close>

definition saturating_payload :: json where
  "saturating_payload =
     JObj [(''id'', JStr ''t7''),
           (''location'', JObj [(''risk'', JStr ''high''), (''country'', JStr ''XX'')]),
           (''cvvMatch'', JBool False),
           (''avsMatch'', JBool False),
           (''amount'', JNum 250000),
           (''merchant'', JStr ''OFFSHORE_CASINO LTD''),
           (''category'', JStr ''GAMBLING''),
           (''device'', JStr ''Emulator''),
           (''isTor'', JBool True),
           (''previousDeclines'', JNum 7),
           (''accountAge'', JNum 2),
           (''timestamp'', JStr ''2024-01-15T02:30:00Z'')]"

definition highest_score :: rat where
  "highest_score = 2848526764311839 / 1125899906842624"

text \<open>A stored alert, a reviewer's decision, and a request that carries a comment only.\<close>

definition sample_alert :: alert where
  "sample_alert =
     alert_doc day_world (JStr ''t1'') threshold_payload \<lparr>score = binary64 0.40, indicators = []\<rparr>"

definition sample_review :: review where
  "sample_review =
     \<lparr>review_action = Some ''CONFIRMED_FRAUD'',
      review_comments = Some ''card blocked'',
      review_assignedTo = Some ''analyst1''\<rparr>"

definition comment_only_review :: review where
  "comment_only_review =
     \<lparr>review_action = None, review_comments = Some ''seen'', review_assignedTo = None\<rparr>"

section \<open>Properties\<close>

subsection \<open>Rounding to binary64 is monotone\<close>

lemma bit_length_pos: "0 < n \<Longrightarrow> 0 < bit_length n"
  by (subst bit_length.simps) simp

lemma bit_length_bounds: "0 < n \<Longrightarrow> 2 ^ (bit_length n - 1) \<le> n \<and> n < 2 ^ bit_length n"
proof (induction n rule: bit_length.induct)
  case (1 n)
  have bl: "bit_length n = Suc (bit_length (n div 2))"
    using 1(2) by (subst bit_length.simps) simp
  show ?case
  proof (cases "n div 2 = 0")
    case True
    with 1(2) have "n = 1" by (simp add: div_eq_0_iff) 
    then show ?thesis by (simp add: bl bit_length.simps)
  next
    case False
    then have pos: "0 < n div 2" by simp
    with 1 have ih: "2 ^ (bit_length (n div 2) - 1) \<le> n div 2" "n div 2 < 2 ^ bit_length (n div 2)"
      by simp_all
    obtain k where k: "bit_length (n div 2) = Suc k"
      using bit_length_pos [OF pos] by (cases "bit_length (n div 2)") simp_all
    from ih(1) k have "2 * 2 ^ k \<le> 2 * (n div 2)" by simp
    then have lo: "2 ^ Suc k \<le> n" by simp
    from ih(2) k have "n div 2 + 1 \<le> 2 ^ Suc k" by simp
    then have "2 * (n div 2) + 2 \<le> 2 * 2 ^ Suc k" by simp
    then have hi: "n < 2 ^ Suc (Suc k)" by simp
    show ?thesis using lo hi by (simp add: bl k)
  qed
qed

lemma pow2_le_of_nat:
  assumes "2 ^ k \<le> n"
  shows "(2::rat) ^ k \<le> of_nat n"
proof -
  have "rat_of_nat (2 ^ k) \<le> of_nat n" using assms by (rule of_nat_mono)
  then show ?thesis by simp
qed

lemma of_nat_Suc_le_pow2:
  assumes "n + 1 \<le> 2 ^ k"
  shows "rat_of_nat n + 1 \<le> 2 ^ k"
proof -
  have "rat_of_nat (n + 1) \<le> of_nat (2 ^ k)" using assms by (rule of_nat_mono)
  then show ?thesis by simp
qed

lemma ilog2_ge_1:
  assumes "1 \<le> x"
  shows "2 powi (ilog2 x) \<le> x" and "x < 2 powi (ilog2 x + 1)"
proof -
  define n where "n = nat \<lfloor>x\<rfloor>"
  have n: "0 < n" "rat_of_nat n \<le> x" "x < rat_of_nat n + 1"
    using assms by (simp_all add: n_def) linarith+
  obtain k where k: "bit_length n = Suc k"
    using bit_length_pos [OF n(1)] by (cases "bit_length n") simp_all
  have i: "ilog2 x = int k"
    using assms by (simp add: ilog2_def n_def [symmetric] k)
  from bit_length_bounds [OF n(1)] k have b: "2 ^ k \<le> n" "n + 1 \<le> 2 ^ Suc k"
    by simp_all
  have "2 powi (ilog2 x) = (2::rat) ^ k" by (simp add: i power_int_of_nat)
  with pow2_le_of_nat [OF b(1)] n(2) show "2 powi (ilog2 x) \<le> x"
    by linarith
  from of_nat_Suc_le_pow2 [OF b(2)] n(3) have "x < 2 ^ Suc k" by linarith
  moreover have "ilog2 x + 1 = int (Suc k)" by (simp add: i)
  ultimately show "x < 2 powi (ilog2 x + 1)"
    by (simp only: power_int_of_nat)
qed

lemma ilog2_lt_1:
  assumes "0 < x" and "x < 1"
  shows "2 powi (ilog2 x) \<le> x" and "x < 2 powi (ilog2 x + 1)"
proof -
  define m where "m = \<lceil>1 / x\<rceil>"
  define n where "n = nat (m - 1)"
  have y: "1 < 1 / x" using assms by simp
  then have m2: "2 \<le> m" unfolding m_def by linarith
  have mb: "1 / x \<le> of_int m" "of_int m - 1 < 1 / x"
    unfolding m_def by linarith+
  have n: "0 < n" "int n = m - 1" using m2 by (simp_all add: n_def)
  obtain k where k: "bit_length n = Suc k"
    using bit_length_pos [OF n(1)] by (cases "bit_length n") simp_all
  have i: "ilog2 x = - int (Suc k)"
    using assms by (simp add: ilog2_def m_def [symmetric] n_def [symmetric] k)
  from bit_length_bounds [OF n(1)] k have b: "2 ^ k \<le> n" "n + 1 \<le> 2 ^ Suc k"
    by simp_all
  have mn: "rat_of_int m = rat_of_nat n + 1"
    using n(2) by (metis add.commute of_int_of_nat_eq of_int_add of_int_1 diff_add_cancel)
  have "1 / x \<le> 2 ^ Suc k" using of_nat_Suc_le_pow2 [OF b(2)] mb(1) mn by linarith
  then have "1 / 2 ^ Suc k \<le> x"
    using assms(1) by (simp add: field_simps)
  then show "2 powi (ilog2 x) \<le> x"
    by (simp add: i power_int_minus power_int_of_nat field_simps del: of_nat_Suc)
  have "2 ^ k < 1 / x" using pow2_le_of_nat [OF b(1)] mb(2) mn by linarith
  then have "x < 1 / 2 ^ k"
    using assms(1) by (simp add: field_simps)
  moreover have "ilog2 x + 1 = - int k" by (simp add: i)
  ultimately show "x < 2 powi (ilog2 x + 1)"
    by (simp add: power_int_minus power_int_of_nat field_simps)
qed

lemma ilog2_bounds:
  assumes "0 < x"
  shows "2 powi (ilog2 x) \<le> x" and "x < 2 powi (ilog2 x + 1)"
  using ilog2_ge_1 [of x] ilog2_lt_1 [of x] assms by (cases "1 \<le> x"; simp)+

lemma round_half_even_range: "\<lfloor>q\<rfloor> \<le> round_half_even q \<and> round_half_even q \<le> \<lfloor>q\<rfloor> + 1"
  by (simp add: round_half_even_def)

lemma round_half_even_of_int: "round_half_even (of_int k) = k"
  by (simp add: round_half_even_def)

lemma round_half_even_mono:
  assumes "p \<le> q"
  shows "round_half_even p \<le> round_half_even q"
proof (cases "\<lfloor>p\<rfloor> = \<lfloor>q\<rfloor>")
  case True
  with assms show ?thesis
    by (auto simp: round_half_even_def)
next
  case False
  with assms have "\<lfloor>p\<rfloor> + 1 \<le> \<lfloor>q\<rfloor>"
    using floor_mono [of p q] by linarith
  with round_half_even_range [of p] round_half_even_range [of q] show ?thesis
    by linarith
qed

lemma ulp_pos: "0 < ulp x"
  by (simp add: ulp_def)

lemma ilog2_mono:
  assumes "0 < x" and "x \<le> y"
  shows "ilog2 x \<le> ilog2 y"
proof (rule ccontr)
  assume "\<not> ilog2 x \<le> ilog2 y"
  then have "ilog2 y + 1 \<le> ilog2 x" by simp
  then have "(2::rat) powi (ilog2 y + 1) \<le> 2 powi (ilog2 x)"
    by (intro power_int_increasing) simp_all
  moreover have "2 powi (ilog2 x) \<le> x" using ilog2_bounds(1) [OF assms(1)] .
  moreover have "y < 2 powi (ilog2 y + 1)" using ilog2_bounds(2) [of y] assms by simp
  ultimately show False using assms(2) by linarith
qed

lemma expo_mono: "0 < x \<Longrightarrow> x \<le> y \<Longrightarrow> expo x \<le> expo y"
  using ilog2_mono [of x y] by (simp add: expo_def)

lemma pow2_split: "(2::rat) powi (e + 1) = 2 ^ 53 * 2 powi (e - 52)"
proof -
  have "(2::rat) powi (e + 1) = 2 powi (53 + (e - 52))"
    by (rule arg_cong [where f = "\<lambda>k. 2 powi k"]) simp
  also have "\<dots> = 2 powi 53 * 2 powi (e - 52)" by (rule power_int_add) simp
  finally show ?thesis by simp
qed

lemma pow2_split': "(2::rat) powi e = 2 ^ 52 * 2 powi (e - 52)"
proof -
  have "(2::rat) powi e = 2 powi (52 + (e - 52))"
    by (rule arg_cong [where f = "\<lambda>k. 2 powi k"]) simp
  also have "\<dots> = 2 powi 52 * 2 powi (e - 52)" by (rule power_int_add) simp
  finally show ?thesis by simp
qed

lemma round_pos_upper:
  assumes "0 < x"
  shows "round_pos x \<le> 2 powi (expo x + 1)"
proof -
  have "x < 2 powi (ilog2 x + 1)" using ilog2_bounds(2) [OF assms] .
  also have "\<dots> \<le> 2 powi (expo x + 1)"
    by (intro power_int_increasing) (simp_all add: expo_def)
  also have "\<dots> = 2 ^ 53 * ulp x" by (simp only: pow2_split ulp_def)
  finally have "x / ulp x \<le> of_int (2 ^ 53)"
    using ulp_pos [of x] by (simp add: field_simps)
  then have "round_half_even (x / ulp x) \<le> 2 ^ 53"
    using round_half_even_mono [of "x / ulp x" "of_int (2 ^ 53)"]
    by (simp only: round_half_even_of_int)
  then have "rat_of_int (round_half_even (x / ulp x)) \<le> of_int (2 ^ 53)"
    by (simp only: of_int_le_iff)
  then have "round_pos x \<le> of_int (2 ^ 53) * ulp x"
    unfolding round_pos_def using ulp_pos [of x] by (intro mult_right_mono) simp_all
  then show ?thesis by (simp add: pow2_split ulp_def)
qed

lemma round_pos_lower:
  assumes "0 < x" and "- 1022 \<le> ilog2 x"
  shows "2 powi (expo x) \<le> round_pos x"
proof -
  have e: "expo x = ilog2 x" using assms(2) by (simp add: expo_def)
  have "2 ^ 52 * ulp x = 2 powi (expo x)" by (simp only: pow2_split' [of "expo x"] ulp_def)
  also have "\<dots> \<le> x" using ilog2_bounds(1) [OF assms(1)] by (simp add: e)
  finally have "of_int (2 ^ 52) \<le> x / ulp x"
    using ulp_pos [of x] by (simp add: field_simps)
  then have "2 ^ 52 \<le> round_half_even (x / ulp x)"
    using round_half_even_mono [of "of_int (2 ^ 52)" "x / ulp x"]
    by (simp only: round_half_even_of_int)
  then have "rat_of_int (2 ^ 52) \<le> of_int (round_half_even (x / ulp x))"
    by (simp only: of_int_le_iff)
  then have "of_int (2 ^ 52) * ulp x \<le> round_pos x"
    unfolding round_pos_def using ulp_pos [of x] by (intro mult_right_mono) simp_all
  then show ?thesis by (simp add: pow2_split' [of "expo x"] ulp_def)
qed

lemma round_pos_nonneg: "0 < x \<Longrightarrow> 0 \<le> round_pos x"
proof -
  assume "0 < x"
  then have "0 \<le> x / ulp x" using ulp_pos [of x] by simp
  then have "0 \<le> round_half_even (x / ulp x)"
    using round_half_even_mono [of "of_int 0" "x / ulp x"] round_half_even_of_int [of 0] by simp
  then show ?thesis
    unfolding round_pos_def using ulp_pos [of x] by simp
qed

lemma round_pos_mono:
  assumes "0 < x" and "x \<le> y"
  shows "round_pos x \<le> round_pos y"
proof (cases "expo x = expo y")
  case True
  then have u: "ulp x = ulp y" by (simp add: ulp_def)
  have "x / ulp y \<le> y / ulp y"
    using assms(2) ulp_pos [of y] by (simp add: divide_right_mono)
  then have "rat_of_int (round_half_even (x / ulp y)) \<le> of_int (round_half_even (y / ulp y))"
    using round_half_even_mono by (simp only: of_int_le_iff)
  then show ?thesis
    unfolding round_pos_def u using ulp_pos [of y] by (intro mult_right_mono) simp_all
next
  case False
  with expo_mono [OF assms] have lt: "expo x + 1 \<le> expo y" by simp
  then have "- 1022 < expo y" by (simp add: expo_def)
  then have ny: "- 1022 \<le> ilog2 y" by (simp add: expo_def max_def split: if_splits)
  have "round_pos x \<le> 2 powi (expo x + 1)" by (rule round_pos_upper [OF assms(1)])
  also have "\<dots> \<le> 2 powi (expo y)"
    using lt by (intro power_int_increasing) simp_all
  also have "\<dots> \<le> round_pos y"
    using round_pos_lower [of y] assms ny by simp
  finally show ?thesis .
qed

lemma binary64_nonneg: "0 \<le> x \<Longrightarrow> 0 \<le> binary64 x"
  by (simp add: binary64_def round_pos_nonneg)

lemma binary64_mono: "0 \<le> x \<Longrightarrow> x \<le> y \<Longrightarrow> binary64 x \<le> binary64 y"
  using round_pos_mono [of x y] round_pos_nonneg [of y]
  by (auto simp: binary64_def)

lemma fadd_mono: "0 \<le> x + y \<Longrightarrow> x \<le> x' \<Longrightarrow> y \<le> y' \<Longrightarrow> fadd x y \<le> fadd x' y'"
  unfolding fadd_def by (rule binary64_mono) simp_all

subsection \<open>Score of each rule\<close>

lemma score_fire: "score (fire wt c m a) = add_if True wt (score a)"
  by (simp add: fire_def add_if_def)

lemma add_if_False: "add_if False wt s = s"
  by (simp add: add_if_def)

lemma geography_score:
  "geography_rule w txn a = Inr a' \<Longrightarrow> score a' = add_if (geography_is_high txn) 0.5 (score a)"
  by (auto simp: geography_rule_def geography_is_high_def score_fire add_if_False
      split: if_splits sum.splits)

lemma cvv_score: "score (cvv_rule txn a) = add_if (cvv_failed txn) 0.3 (score a)"
  by (simp add: cvv_rule_def cvv_failed_def score_fire add_if_False)

lemma avs_score: "score (avs_rule txn a) = add_if (avs_failed txn) 0.15 (score a)"
  by (simp add: avs_rule_def avs_failed_def score_fire add_if_False)

lemma number_and_numeric: "number_and v p = (case numeric v of None \<Rightarrow> False | Some x \<Rightarrow> p x)"
  by (cases "(v, p)" rule: number_and.cases) auto

lemma amount_exclusive: "\<not> (amount_high txn \<and> amount_medium txn)"
  by (auto simp: amount_high_def amount_medium_def split: option.splits)

lemma amount_score:
  "score (amount_rule w txn a) =
     add_if (amount_medium txn) 0.1 (add_if (amount_high txn) 0.2 (score a))"
  by (auto simp: amount_rule_def amount_high_def amount_medium_def score_fire add_if_def
      number_and_numeric split: option.splits)

lemma merchant_matches_iff: "merchant_matches (field txn ''merchant'') = merchant_suspicious txn"
  by (cases "field txn ''merchant''" rule: text_of.cases)
    (simp_all add: merchant_matches_def merchant_suspicious_def suspiciousMerchants_def)

lemma merchant_score:
  "score (merchant_rule txn a) = add_if (merchant_suspicious txn) 0.3 (score a)"
  by (simp add: merchant_rule_def score_fire merchant_matches_iff add_if_False)

lemma category_matches_iff:
  "Array_includes suspiciousCategories (field txn ''category'') = category_suspicious txn"
  by (cases "field txn ''category''" rule: text_of.cases)
    (simp_all add: category_suspicious_def suspiciousCategories_def)

lemma device_matches_iff:
  "Array_includes suspiciousDevices (field txn ''device'') = device_suspicious txn"
  by (cases "field txn ''device''" rule: text_of.cases)
    (simp_all add: device_suspicious_def suspiciousDevices_def)

lemma category_score:
  "score (category_rule txn a) = add_if (category_suspicious txn) 0.25 (score a)"
  by (simp add: category_rule_def score_fire category_matches_iff add_if_False)

lemma device_score:
  "score (device_rule txn a) = add_if (device_suspicious txn) 0.2 (score a)"
  by (simp add: device_rule_def score_fire device_matches_iff add_if_False)

lemma network_score:
  "score (network_rule txn a) = add_if (vpn_or_tor txn) 0.15 (score a)"
  by (simp add: network_rule_def score_fire vpn_or_tor_def add_if_False)

lemma Number_isInteger_iff:
  "Number_isInteger v = (case numeric v of None \<Rightarrow> False | Some x \<Rightarrow> x \<in> \<int>)"
  by (cases v rule: numeric.cases) (auto simp: Ints_def intro: floor_of_int dest: sym)

lemma declines_score:
  "score (declines_rule w txn a) = add_if (declines_at_least_3 txn) 0.3 (score a)"
  by (auto simp: declines_rule_def declines_at_least_3_def score_fire add_if_def
      number_and_numeric Number_isInteger_iff split: option.splits)

lemma account_age_score:
  "score (account_age_rule txn a) = add_if (account_is_new txn) 0.1 (score a)"
  by (simp add: account_age_rule_def account_is_new_def score_fire number_and_numeric add_if_False)

lemma night_iff: "night h = hour_is_night h"
  by (simp add: night_def hour_is_night_def)

lemma time_score: "score (time_rule h a) = add_if (hour_is_night h) 0.08 (score a)"
  by (simp add: time_rule_def score_fire night_iff add_if_False)

lemmas rule_scores = cvv_score avs_score amount_score merchant_score category_score device_score
  network_score declines_score account_age_score time_score

lemma evaluate_parts:
  assumes "evaluate w txn = Inr (a, d)"
  obtains a1 where "geography_rule w txn \<lparr>score = 0, indicators = []\<rparr> = Inr a1"
    and "txnTime w txn = Inr d"
    and "a = time_rule (getHours w d) (middle_rules w txn a1)"
  using assms by (auto simp: evaluate_def Let_def split: sum.splits)

text \<open>The score as the chain of the twelve steps, in source order.\<close>

lemma evaluate_score_chain:
  assumes "evaluate w txn = Inr (a, d)"
  shows "score a =
     add_if (hour_is_night (getHours w d)) 0.08
      (add_if (account_is_new txn) 0.1
       (add_if (declines_at_least_3 txn) 0.3
        (add_if (vpn_or_tor txn) 0.15
         (add_if (device_suspicious txn) 0.2
          (add_if (category_suspicious txn) 0.25
           (add_if (merchant_suspicious txn) 0.3
            (add_if (amount_medium txn) 0.1
             (add_if (amount_high txn) 0.2
              (add_if (avs_failed txn) 0.15
               (add_if (cvv_failed txn) 0.3
                (add_if (geography_is_high txn) 0.5 0)))))))))))"
proof -
  from assms obtain a1 where g: "geography_rule w txn \<lparr>score = 0, indicators = []\<rparr> = Inr a1"
    and a: "a = time_rule (getHours w d) (middle_rules w txn a1)"
    by (rule evaluate_parts)
  have "score a1 = add_if (geography_is_high txn) 0.5 0"
    using geography_score [OF g] by simp
  then show ?thesis
    unfolding a middle_rules_def rule_scores by simp
qed

lemma accumulate_matching:
  "foldl fadd s (map binary64 (map snd (filter (\<lambda>r. fst r txn h) rs))) =
   foldl (\<lambda>s r. add_if (fst r txn h) (snd r) s) s rs"
  by (induction rs arbitrary: s) (simp_all add: add_if_def)

lemma evaluate_score_sum:
  assumes "evaluate w txn = Inr (a, d)"
  shows "score a = accumulate (matching_weights txn (getHours w d))"
  unfolding evaluate_score_chain [OF assms] accumulate_def matching_weights_def accumulate_matching
  by (simp add: rule_table_def)

subsection \<open>The running sum when every rule fires\<close>

text \<open>The running sum when every rule fires, step by step.\<close>

lemma full_chain:
  "fadd (0) (binary64 0.5) = 1/2"
  "fadd (1/2) (binary64 0.3) = 3602879701896397/4503599627370496"
  "fadd (3602879701896397/4503599627370496) (binary64 0.15) = 8556839292003943/9007199254740992"
  "fadd (8556839292003943/9007199254740992) (binary64 0.2) = 5179139571476071/4503599627370496"
  "fadd (5179139571476071/4503599627370496) (binary64 0.3) = 1632554864921805/1125899906842624"
  "fadd (1632554864921805/1125899906842624) (binary64 0.25) = 1914029841632461/1125899906842624"
  "fadd (1914029841632461/1125899906842624) (binary64 0.2) = 8556839292003943/4503599627370496"
  "fadd (8556839292003943/4503599627370496) (binary64 0.15) = 4616189618054759/2251799813685248"
  "fadd (4616189618054759/2251799813685248) (binary64 0.3) = 5291729562160333/2251799813685248"
  "fadd (5291729562160333/2251799813685248) (binary64 0.1) = 2758454771764429/1125899906842624"
  "fadd (2758454771764429/1125899906842624) (binary64 0.08) = 2848526764311839/1125899906842624"
  by code_simp+

lemma add_if_bound:
  assumes "0 \<le> s \<and> s \<le> S" and "fadd S (binary64 wt) = S'" and "0 \<le> wt" and "S \<le> S'"
  shows "0 \<le> add_if c wt s \<and> add_if c wt s \<le> S'"
proof (cases c)
  case True
  have w: "0 \<le> binary64 wt" using assms(3) by (rule binary64_nonneg)
  with assms(1) have "0 \<le> s + binary64 wt" "s + binary64 wt \<le> S + binary64 wt" by simp_all
  then have "0 \<le> fadd s (binary64 wt)" "fadd s (binary64 wt) \<le> fadd S (binary64 wt)"
    unfolding fadd_def by (simp_all add: binary64_nonneg binary64_mono)
  with True assms(2) show ?thesis by (simp add: add_if_def)
next
  case False
  with assms(1,4) show ?thesis by (simp add: add_if_def)
qed

lemma amount_bound:
  assumes "0 \<le> s \<and> s \<le> S" and "fadd S (binary64 0.2) = S'" and "S \<le> S'"
    and "\<not> (hi \<and> med)"
  shows "0 \<le> add_if med 0.1 (add_if hi 0.2 s) \<and> add_if med 0.1 (add_if hi 0.2 s) \<le> S'"
proof (cases med)
  case True
  with assms(4) have nh: "\<not> hi" by simp
  have le: "binary64 0.1 \<le> binary64 0.2" by (rule binary64_mono) simp_all
  have w: "0 \<le> binary64 0.1" by (rule binary64_nonneg) simp
  with assms(1) le have "0 \<le> s + binary64 0.1" "s + binary64 0.1 \<le> S + binary64 0.2" by simp_all
  then have "0 \<le> fadd s (binary64 0.1)" "fadd s (binary64 0.1) \<le> fadd S (binary64 0.2)"
    unfolding fadd_def by (simp_all add: binary64_nonneg binary64_mono)
  with True nh assms(2) show ?thesis by (simp add: add_if_def)
next
  case False
  then have "add_if med 0.1 (add_if hi 0.2 s) = add_if hi 0.2 s" by (simp add: add_if_def)
  with add_if_bound [OF assms(1,2) _ assms(3), of hi] show ?thesis by simp
qed

lemma score_bounds:
  assumes "evaluate w txn = Inr (a, d)"
  shows "0 \<le> score a \<and> score a \<le> highest_score"
proof -
  define s1 where "s1 = add_if (geography_is_high txn) 0.5 0"
  define s2 where "s2 = add_if (cvv_failed txn) 0.3 s1"
  define s3 where "s3 = add_if (avs_failed txn) 0.15 s2"
  define s4 where "s4 = add_if (amount_medium txn) 0.1 (add_if (amount_high txn) 0.2 s3)"
  define s5 where "s5 = add_if (merchant_suspicious txn) 0.3 s4"
  define s6 where "s6 = add_if (category_suspicious txn) 0.25 s5"
  define s7 where "s7 = add_if (device_suspicious txn) 0.2 s6"
  define s8 where "s8 = add_if (vpn_or_tor txn) 0.15 s7"
  define s9 where "s9 = add_if (declines_at_least_3 txn) 0.3 s8"
  define s10 where "s10 = add_if (account_is_new txn) 0.1 s9"
  define s11 where "s11 = add_if (hour_is_night (getHours w d)) 0.08 s10"
  have b0: "(0::rat) \<le> 0 \<and> (0::rat) \<le> 0" by simp
  have b1: "0 \<le> s1 \<and> s1 \<le> 1/2"
    unfolding s1_def by (rule add_if_bound [OF b0 full_chain(1)]) simp_all
  have b2: "0 \<le> s2 \<and> s2 \<le> 3602879701896397/4503599627370496"
    unfolding s2_def by (rule add_if_bound [OF b1 full_chain(2)]) simp_all
  have b3: "0 \<le> s3 \<and> s3 \<le> 8556839292003943/9007199254740992"
    unfolding s3_def by (rule add_if_bound [OF b2 full_chain(3)]) simp_all
  have b4: "0 \<le> s4 \<and> s4 \<le> 5179139571476071/4503599627370496"
    unfolding s4_def by (rule amount_bound [OF b3 full_chain(4) _ amount_exclusive]) simp
  have b5: "0 \<le> s5 \<and> s5 \<le> 1632554864921805/1125899906842624"
    unfolding s5_def by (rule add_if_bound [OF b4 full_chain(5)]) simp_all
  have b6: "0 \<le> s6 \<and> s6 \<le> 1914029841632461/1125899906842624"
    unfolding s6_def by (rule add_if_bound [OF b5 full_chain(6)]) simp_all
  have b7: "0 \<le> s7 \<and> s7 \<le> 8556839292003943/4503599627370496"
    unfolding s7_def by (rule add_if_bound [OF b6 full_chain(7)]) simp_all
  have b8: "0 \<le> s8 \<and> s8 \<le> 4616189618054759/2251799813685248"
    unfolding s8_def by (rule add_if_bound [OF b7 full_chain(8)]) simp_all
  have b9: "0 \<le> s9 \<and> s9 \<le> 5291729562160333/2251799813685248"
    unfolding s9_def by (rule add_if_bound [OF b8 full_chain(9)]) simp_all
  have b10: "0 \<le> s10 \<and> s10 \<le> 2758454771764429/1125899906842624"
    unfolding s10_def by (rule add_if_bound [OF b9 full_chain(10)]) simp_all
  have b11: "0 \<le> s11 \<and> s11 \<le> 2848526764311839/1125899906842624"
    unfolding s11_def by (rule add_if_bound [OF b10 full_chain(11)]) simp_all
  have "score a = s11"
    unfolding s11_def s10_def s9_def s8_def s7_def s6_def s5_def s4_def s3_def s2_def s1_def by (rule evaluate_score_chain [OF assms])
  with b11 show ?thesis by (simp add: highest_score_def)
qed

subsection \<open>Indicator codes\<close>

lemma codes_fire: "map code (indicators (fire wt c m a)) = map code (indicators a) @ [c]"
  by (simp add: fire_def)

lemma geography_codes:
  "geography_rule w txn a = Inr a' \<Longrightarrow>
   map code (indicators a') =
     map code (indicators a) @ (if geography_is_high txn then [''HIGH_RISK_GEOGRAPHY''] else [])"
  by (auto simp: geography_rule_def geography_is_high_def codes_fire split: if_splits sum.splits)

lemma cvv_codes:
  "map code (indicators (cvv_rule txn a)) =
     map code (indicators a) @ (if cvv_failed txn then [''CVV_VERIFICATION_FAILED''] else [])"
  by (simp add: cvv_rule_def cvv_failed_def codes_fire)

lemma avs_codes:
  "map code (indicators (avs_rule txn a)) =
     map code (indicators a) @ (if avs_failed txn then [''ADDRESS_VERIFICATION_FAILED''] else [])"
  by (simp add: avs_rule_def avs_failed_def codes_fire)

lemma amount_codes:
  "map code (indicators (amount_rule w txn a)) =
     map code (indicators a) @
       (if amount_high txn \<or> amount_medium txn then [''UNUSUAL_TRANSACTION_AMOUNT''] else [])"
  by (auto simp: amount_rule_def amount_high_def amount_medium_def codes_fire number_and_numeric
      split: option.splits)

lemma merchant_codes:
  "map code (indicators (merchant_rule txn a)) =
     map code (indicators a) @ (if merchant_suspicious txn then [''HIGH_RISK_MERCHANT''] else [])"
  by (simp add: merchant_rule_def codes_fire merchant_matches_iff)

lemma category_codes:
  "map code (indicators (category_rule txn a)) =
     map code (indicators a) @
       (if category_suspicious txn then [''HIGH_RISK_MERCHANT_CATEGORY''] else [])"
  by (simp add: category_rule_def codes_fire category_matches_iff)

lemma device_codes:
  "map code (indicators (device_rule txn a)) =
     map code (indicators a) @ (if device_suspicious txn then [''SUSPICIOUS_DEVICE''] else [])"
  by (simp add: device_rule_def codes_fire device_matches_iff)

lemma network_codes:
  "map code (indicators (network_rule txn a)) =
     map code (indicators a) @ (if vpn_or_tor txn then [''VPN_OR_PROXY_DETECTED''] else [])"
  by (simp add: network_rule_def codes_fire vpn_or_tor_def)

lemma declines_codes:
  "map code (indicators (declines_rule w txn a)) =
     map code (indicators a) @ (if declines_at_least_3 txn then [''CARD_TESTING_PATTERN''] else [])"
  by (auto simp: declines_rule_def declines_at_least_3_def codes_fire number_and_numeric
      Number_isInteger_iff split: option.splits)

lemma account_age_codes:
  "map code (indicators (account_age_rule txn a)) =
     map code (indicators a) @ (if account_is_new txn then [''NEW_ACCOUNT_RISK''] else [])"
  by (simp add: account_age_rule_def account_is_new_def codes_fire number_and_numeric)

lemma time_codes:
  "map code (indicators (time_rule h a)) =
     map code (indicators a) @ (if hour_is_night h then [''UNUSUAL_TRANSACTION_TIME''] else [])"
  by (simp add: time_rule_def codes_fire night_iff)

lemmas rule_codes = cvv_codes avs_codes amount_codes merchant_codes category_codes device_codes
  network_codes declines_codes account_age_codes time_codes

lemma evaluate_codes:
  assumes "evaluate w txn = Inr (a, d)"
  shows "map code (indicators a) =
     (if geography_is_high txn then [''HIGH_RISK_GEOGRAPHY''] else []) @
     (if cvv_failed txn then [''CVV_VERIFICATION_FAILED''] else []) @
     (if avs_failed txn then [''ADDRESS_VERIFICATION_FAILED''] else []) @
     (if amount_high txn \<or> amount_medium txn then [''UNUSUAL_TRANSACTION_AMOUNT''] else []) @
     (if merchant_suspicious txn then [''HIGH_RISK_MERCHANT''] else []) @
     (if category_suspicious txn then [''HIGH_RISK_MERCHANT_CATEGORY''] else []) @
     (if device_suspicious txn then [''SUSPICIOUS_DEVICE''] else []) @
     (if vpn_or_tor txn then [''VPN_OR_PROXY_DETECTED''] else []) @
     (if declines_at_least_3 txn then [''CARD_TESTING_PATTERN''] else []) @
     (if account_is_new txn then [''NEW_ACCOUNT_RISK''] else []) @
     (if hour_is_night (getHours w d) then [''UNUSUAL_TRANSACTION_TIME''] else [])"
proof -
  from assms obtain a1 where g: "geography_rule w txn \<lparr>score = 0, indicators = []\<rparr> = Inr a1"
    and a: "a = time_rule (getHours w d) (middle_rules w txn a1)"
    by (rule evaluate_parts)
  have "map code (indicators a1) = (if geography_is_high txn then [''HIGH_RISK_GEOGRAPHY''] else [])"
    using geography_codes [OF g] by simp
  then show ?thesis
    unfolding a middle_rules_def rule_codes
    by (simp split del: if_split)
qed

lemma in_set_if: "x \<in> set (if c then [k] else []) \<longleftrightarrow> c \<and> x = k"
  by auto

lemma amount_code_iff:
  assumes "evaluate w txn = Inr (a, d)"
  shows "''UNUSUAL_TRANSACTION_AMOUNT'' \<in> code ` set (indicators a) \<longleftrightarrow> amount_high txn \<or> amount_medium txn"
proof -
  have "code ` set (indicators a) = set (map code (indicators a))" by simp
  then show ?thesis
    unfolding evaluate_codes [OF assms]
    by (simp split del: if_split add: in_set_if)
qed

lemma declines_code_iff:
  assumes "evaluate w txn = Inr (a, d)"
  shows "''CARD_TESTING_PATTERN'' \<in> code ` set (indicators a) \<longleftrightarrow> declines_at_least_3 txn"
proof -
  have "code ` set (indicators a) = set (map code (indicators a))" by simp
  then show ?thesis
    unfolding evaluate_codes [OF assms]
    by (simp split del: if_split add: in_set_if)
qed

lemma time_code_iff:
  assumes "evaluate w txn = Inr (a, d)"
  shows "''UNUSUAL_TRANSACTION_TIME'' \<in> code ` set (indicators a) \<longleftrightarrow> hour_is_night (getHours w d)"
proof -
  have "code ` set (indicators a) = set (map code (indicators a))" by simp
  then show ?thesis
    unfolding evaluate_codes [OF assms]
    by (simp split del: if_split add: in_set_if)
qed


subsection \<open>The two writes\<close>

lemma persist_transactions:
  "transactions (fst (persist w tid name txn a d st)) =
     (if d \<noteq> InvalidDate \<and> Transaction_sink_ok w
      then transactions st @ [txn_doc tid txn a d] else transactions st)"
  by (simp add: persist_def Transaction_create_def Alert_create_def log_def Let_def txn_doc_def)

lemma persist_alerts:
  "alerts (fst (persist w tid name txn a d st)) =
     (if d \<noteq> InvalidDate \<and> Transaction_sink_ok w \<and> score a \<ge> binary64 0.4 \<and> Alert_sink_ok w
      then alerts st @ [alert_doc w tid txn a] else alerts st)"
  by (simp add: persist_def Transaction_create_def Alert_create_def log_def Let_def txn_doc_def)

lemma eachMessage_returns: "eachMessage w m st = Returns (outcome (eachMessage w m st))"
  by (simp add: eachMessage_def split: prod.splits option.splits)

lemma outcome_eachMessage:
  "outcome (eachMessage w m st) =
     (case try_body w m st of (st', None) \<Rightarrow> st' | (st', Some e) \<Rightarrow> log (ProcessingError e) st')"
  by (simp add: eachMessage_def split: prod.splits option.splits)

lemma outcome_collections:
  "transactions (outcome (eachMessage w m st)) = transactions (fst (try_body w m st))"
  "alerts (outcome (eachMessage w m st)) = alerts (fst (try_body w m st))"
  by (simp_all add: outcome_eachMessage log_def split: prod.splits option.splits)

lemma try_body_identified:
  assumes "js_or (field txn ''id'') (field txn ''transactionId'') = Some tid"
    and "truthy (Some tid)" and "String_of w tid = Inr name" and "evaluate w txn = Inr (a, d)"
  shows "try_body w (Payload txn) st =
     persist w tid name txn a d
       (log (Result name (score a) (classify (score a))) (log (Processing name) st))"
proof -
  from assms(1) have "txn \<noteq> JNull" by (auto simp: js_or_def)
  with assms show ?thesis by (simp add: try_body_def Let_def)
qed

lemma stored_by_eachMessage:
  assumes "js_or (field txn ''id'') (field txn ''transactionId'') = Some tid"
    and "truthy (Some tid)" and "String_of w tid = Inr name" and "evaluate w txn = Inr (a, d)"
  shows "transactions (outcome (eachMessage w (Payload txn) st)) =
           (if d \<noteq> InvalidDate \<and> Transaction_sink_ok w
            then transactions st @ [txn_doc tid txn a d] else transactions st)"
    and "alerts (outcome (eachMessage w (Payload txn) st)) =
           (if d \<noteq> InvalidDate \<and> Transaction_sink_ok w \<and> score a \<ge> binary64 0.4 \<and> Alert_sink_ok w
            then alerts st @ [alert_doc w tid txn a] else alerts st)"
  unfolding outcome_collections try_body_identified [OF assms] persist_transactions persist_alerts
  by (simp_all add: log_def)

text \<open>Any message: what the collections can look like afterwards.\<close>

lemma try_body_collections:
  "(transactions (fst (try_body w m st)) = transactions st \<and> alerts (fst (try_body w m st)) = alerts st)
   \<or> (\<exists>tid name txn a d. fst (try_body w m st) = fst (persist w tid name txn a d
             (log (Result name (score a) (classify (score a))) (log (Processing name) st))))"
proof (cases m)
  case (Payload txn)
  show ?thesis
  proof (cases "txn = JNull")
    case True
    with Payload show ?thesis by (simp add: try_body_def)
  next
    case False
    show ?thesis
    proof (cases "js_or (field txn ''id'') (field txn ''transactionId'')")
      case None
      with Payload False show ?thesis by (simp add: try_body_def log_def)
    next
      case (Some tid)
      show ?thesis
      proof (cases "truthy (Some tid)")
        case no: False
        with Payload False Some show ?thesis by (simp add: try_body_def log_def)
      next
        case yes: True
        show ?thesis
        proof (cases "String_of w tid")
          case (Inl e)
          with Payload False Some yes show ?thesis by (simp add: try_body_def)
        next
          case name: (Inr name)
          show ?thesis
          proof (cases "evaluate w txn")
            case (Inl e)
            with Payload False Some yes name show ?thesis
              by (simp add: try_body_def log_def Let_def)
          next
            case (Inr p)
            obtain a d where "p = (a, d)" by (cases p)
            with Inr Payload Some yes name
            have "fst (try_body w m st) = fst (persist w tid name txn a d
                (log (Result name (score a) (classify (score a))) (log (Processing name) st)))"
              using try_body_identified [of txn tid w name a d st] by simp
            then show ?thesis by blast
          qed
        qed
      qed
    qed
  qed
qed (simp_all add: try_body_def)

lemma consume_returns: "\<exists>st'. consume ds st = Returns st'"
proof (induction ds arbitrary: st)
  case Nil
  show ?case by simp
next
  case (Cons p ds)
  obtain w m where "p = (w, m)" by (cases p)
  moreover obtain st1 where "eachMessage w m st = Returns st1"
    using eachMessage_returns [of w m st] by blast
  ultimately have "consume (p # ds) st = consume ds st1" by simp
  with Cons.IH show ?case by simp
qed

lemma consume_append:
  "consume (ds @ ds') st = consume ds' (outcome (consume ds st))"
proof (induction ds arbitrary: st)
  case Nil
  show ?case by simp
next
  case (Cons p ds)
  obtain w m where p: "p = (w, m)" by (cases p)
  obtain st1 where e: "eachMessage w m st = Returns st1"
    using eachMessage_returns [of w m st] by blast
  show ?case using Cons.IH [of st1] by (simp add: p e)
qed

subsection \<open>Sample runs\<close>

lemma threshold_payload_evaluate:
  "evaluate day_world threshold_payload =
     Inr (\<lparr>score = 3602879701896397 / 9007199254740992,
           indicators =
             [\<lparr>code = ''CVV_VERIFICATION_FAILED'', message = ''CVV verification failed''\<rparr>,
              \<lparr>code = ''UNUSUAL_TRANSACTION_AMOUNT'', message = ''Medium amount: Rs#''\<rparr>]\<rparr>,
          Valid 1700049600000)"
  by code_simp

lemma threshold_payload_refused:
  "evaluate refusing_world threshold_payload =
     Inr (\<lparr>score = 3602879701896397 / 9007199254740992,
           indicators =
             [\<lparr>code = ''CVV_VERIFICATION_FAILED'', message = ''CVV verification failed''\<rparr>,
              \<lparr>code = ''UNUSUAL_TRANSACTION_AMOUNT'', message = ''Medium amount: Rs#''\<rparr>]\<rparr>,
          Valid 1700049600000)"
  by code_simp


lemma literal_values:
  "binary64 0.40 = 3602879701896397 / 9007199254740992"
  "binary64 0.30 = 5404319552844595 / 18014398509481984"
  "binary64 0.50 = 1 / 2"
  "binary64 0.70 = 3152519739159347 / 4503599627370496"
  "binary64 0.45 = 8106479329266893 / 18014398509481984"
  "binary64 1.08 = 607985949695017 / 562949953421312"
  by code_simp+

subsection \<open>Risk score\<close>

lemma example_conditions:
  "geography_is_high identified_example_payload" "cvv_failed identified_example_payload"
  "\<not> avs_failed identified_example_payload" "amount_high identified_example_payload"
  "\<not> amount_medium identified_example_payload" "\<not> merchant_suspicious identified_example_payload"
  "\<not> category_suspicious identified_example_payload" "\<not> device_suspicious identified_example_payload"
  "\<not> vpn_or_tor identified_example_payload" "\<not> declines_at_least_3 identified_example_payload"
  "\<not> account_is_new identified_example_payload"
  by (simp_all add: identified_example_payload_def geography_is_high_def cvv_failed_def
      avs_failed_def amount_high_def amount_medium_def merchant_suspicious_def
      category_suspicious_def device_suspicious_def vpn_or_tor_def declines_at_least_3_def
      account_is_new_def)

lemma example_sums:
  "fadd (fadd (fadd 0 (binary64 0.5)) (binary64 0.3)) (binary64 0.2) = 1"
  "fadd 1 (binary64 0.08) = binary64 1.08"
  by code_simp+

lemma example_evaluates:
  "\<exists>a. evaluate w identified_example_payload = Inr (a, Valid (clock w))"
  by (simp add: evaluate_def geography_rule_def or_default_def txnTime_def
      identified_example_payload_def)

lemma example_score:
  assumes "evaluate w identified_example_payload = Inr (a, Valid (clock w))"
  shows "score a = (if night (Some (local_hour w (clock w))) then binary64 1.08 else 1)"
proof -
  have "score a = add_if (night (Some (local_hour w (clock w)))) 0.08
      (add_if True 0.2 (add_if True 0.3 (add_if True 0.5 0)))"
    unfolding evaluate_score_chain [OF assms]
    by (simp only: example_conditions add_if_False night_iff getHours.simps)
  then show ?thesis
    by (cases "night (Some (local_hour w (clock w)))") (simp_all only: add_if_def example_sums if_True if_False)
qed

lemma example_level:
  "classify (binary64 1.08) = CRITICAL" "classify 1 = CRITICAL"
  by code_simp+

text \<open>
  As the claim words it, the score is the exact sum of the weights and the worked
  example yields 1.00.  The handler skips the example as written, which carries no
  identifier, before any rule runs.  With the CVV and the address rule matching, the
  stored score is the double printed \<open>0.44999999999999996\<close>, which is neither 0.45 nor the
  double nearest to 0.45.  With an identifier added and a local time of 02:00, the
  worked example is stored with the score 1.08.
\<close>

theorem exact_sum_counterexample:
  "eachMessage day_world (Payload example_payload) empty_state =
     Returns \<lparr>transactions = [], alerts = [], console = [Skipping]\<rparr>
   \<and> map mlScore (transactions (outcome (eachMessage day_world (Payload cvv_avs_payload) empty_state)))
       = [2026619832316723 / 4503599627370496]
   \<and> (2026619832316723 / 4503599627370496 :: rat) \<noteq> 0.30 + 0.15
   \<and> (2026619832316723 / 4503599627370496 :: rat) \<noteq> binary64 0.45
   \<and> map mlScore (transactions (outcome (eachMessage night_world (Payload identified_example_payload) empty_state)))
       = [binary64 1.08]
   \<and> binary64 1.08 \<noteq> 1"
  by code_simp

text \<open>
  C1 (amended).  Whenever evaluation completes, the score is the sum of the weights of
  the table rows whose condition the payload and the resolved hour satisfy, added up in
  table order in binary64 arithmetic, starting from 0.  The two amount rows never hold
  together, and an amount of 75000 adds the weight 0.10 only.  The worked example with
  an identifier added, which carries no timestamp, is stored with the level CRITICAL
  and with the score 1.00 when the local hour of processing is from 6 to 22, 1.08 when
  the time-of-day rule fires as well.
\<close>

theorem score_is_sum_of_matching_weights:
  "(\<forall>a d. evaluate w txn = Inr (a, d) \<longrightarrow> score a = accumulate (matching_weights txn (getHours w d)))
   \<and> \<not> (amount_high txn \<and> amount_medium txn)
   \<and> (field txn ''amount'' = Some (JNum 75000) \<longrightarrow>
        score (amount_rule w txn a0) = fadd (score a0) (binary64 0.10))
   \<and> (Transaction_sink_ok w \<longrightarrow>
        (\<exists>doc. transactions (outcome (eachMessage w (Payload identified_example_payload) st))
                 = transactions st @ [doc]
              \<and> mlScore doc = (if night (Some (local_hour w (clock w))) then binary64 1.08 else 1.00)
              \<and> riskLevel doc = CRITICAL))"
proof (intro conjI allI impI)
  fix a d
  assume "evaluate w txn = Inr (a, d)"
  then show "score a = accumulate (matching_weights txn (getHours w d))"
    by (rule evaluate_score_sum)
next
  show "\<not> (amount_high txn \<and> amount_medium txn)"
    by (rule amount_exclusive)
next
  assume "field txn ''amount'' = Some (JNum 75000)"
  then have "amount_medium txn" "\<not> amount_high txn"
    by (simp_all add: amount_high_def amount_medium_def)
  then show "score (amount_rule w txn a0) = fadd (score a0) (binary64 0.10)"
    by (simp add: amount_score add_if_def)
next
  assume ok: "Transaction_sink_ok w"
  obtain a where e: "evaluate w identified_example_payload = Inr (a, Valid (clock w))"
    using example_evaluates by blast
  have i: "js_or (field identified_example_payload ''id'')
      (field identified_example_payload ''transactionId'') = Some (JStr ''t0'')"
    by (simp add: js_or_def identified_example_payload_def)
  have s: "score a = (if night (Some (local_hour w (clock w))) then binary64 1.08 else 1)"
    by (rule example_score [OF e])
  have "transactions (outcome (eachMessage w (Payload identified_example_payload) st))
      = transactions st @ [txn_doc (JStr ''t0'') identified_example_payload a (Valid (clock w))]"
    using stored_by_eachMessage(1) [OF i _ _ e, of "''t0''" st] ok by simp
  moreover have "mlScore (txn_doc (JStr ''t0'') identified_example_payload a (Valid (clock w)))
      = (if night (Some (local_hour w (clock w))) then binary64 1.08 else 1.00)"
    using s by (simp add: txn_doc_def)
  moreover have "riskLevel (txn_doc (JStr ''t0'') identified_example_payload a (Valid (clock w)))
      = CRITICAL"
    using s example_level by (simp add: txn_doc_def)
  ultimately show "\<exists>doc. transactions (outcome (eachMessage w (Payload identified_example_payload) st))
                 = transactions st @ [doc]
              \<and> mlScore doc = (if night (Some (local_hour w (clock w))) then binary64 1.08 else 1.00)
              \<and> riskLevel doc = CRITICAL"
    by blast
qed

theorem score_is_sum_of_matching_weights_witness:
  "matching_weights threshold_payload (Some 12) = [0.30, 0.10]
   \<and> accumulate [0.30, 0.10] = binary64 0.40
   \<and> (\<exists>a. evaluate day_world threshold_payload = Inr (a, Valid 1700049600000)
          \<and> score a = binary64 0.40)
   \<and> (\<exists>doc. transactions (outcome (eachMessage day_world (Payload identified_example_payload) empty_state))
              = [doc] \<and> mlScore doc = 1 \<and> riskLevel doc = CRITICAL)"
proof -
  have h: "getHours day_world (Valid 1700049600000) = Some 12"
    by (simp add: day_world_def)
  have m: "matching_weights threshold_payload (Some 12) = [0.30, 0.10]"
    by (simp add: matching_weights_def rule_table_def threshold_payload_def geography_is_high_def
        cvv_failed_def avs_failed_def amount_high_def amount_medium_def merchant_suspicious_def
        category_suspicious_def device_suspicious_def vpn_or_tor_def declines_at_least_3_def
        account_is_new_def hour_is_night_def)
  have acc: "accumulate [0.30, 0.10] = binary64 0.40"
    by code_simp
  have ok: "Transaction_sink_ok day_world" "\<not> night (Some (local_hour day_world (clock day_world)))"
    by (simp_all add: day_world_def night_def)
  show ?thesis
    using score_is_sum_of_matching_weights [of day_world threshold_payload _ empty_state]
      threshold_payload_evaluate h m acc ok
    by (simp add: empty_state_def)
qed

subsection \<open>Risk level\<close>

text \<open>
  C2.  The level is CRITICAL exactly from 0.70, HIGH from 0.50 up to 0.70, MEDIUM from
  0.30 up to 0.50, and LOW below 0.30; each threshold belongs to the higher level.  The
  thresholds are the doubles that the three literals denote: 0.50 itself, and for 0.70
  and 0.30 a double less than one part in 10^16 below the decimal.  The six boundary
  scores of the specification map as listed, read as doubles and read as exact
  decimals.
\<close>

theorem classify_thresholds:
  "(classify s = CRITICAL \<longleftrightarrow> s \<ge> binary64 0.70)
   \<and> (classify s = HIGH \<longleftrightarrow> binary64 0.50 \<le> s \<and> s < binary64 0.70)
   \<and> (classify s = MEDIUM \<longleftrightarrow> binary64 0.30 \<le> s \<and> s < binary64 0.50)
   \<and> (classify s = LOW \<longleftrightarrow> s < binary64 0.30)
   \<and> classify (binary64 0.70) = CRITICAL \<and> classify (binary64 0.6999) = HIGH
   \<and> classify (binary64 0.50) = HIGH \<and> classify (binary64 0.4999) = MEDIUM
   \<and> classify (binary64 0.30) = MEDIUM \<and> classify (binary64 0.2999) = LOW
   \<and> classify 0.70 = CRITICAL \<and> classify 0.6999 = HIGH
   \<and> classify 0.50 = HIGH \<and> classify 0.4999 = MEDIUM
   \<and> classify 0.30 = MEDIUM \<and> classify 0.2999 = LOW
   \<and> binary64 0.70 \<le> 0.70 \<and> 0.70 - binary64 0.70 < 1 / 10 ^ 16
   \<and> binary64 0.50 = 0.50
   \<and> binary64 0.30 \<le> 0.30 \<and> 0.30 - binary64 0.30 < 1 / 10 ^ 16"
proof -
  have o: "binary64 0.30 < binary64 0.50" "binary64 0.50 < binary64 0.70"
    by code_simp+
  have bands: "(classify s = CRITICAL \<longleftrightarrow> s \<ge> binary64 0.70)
   \<and> (classify s = HIGH \<longleftrightarrow> binary64 0.50 \<le> s \<and> s < binary64 0.70)
   \<and> (classify s = MEDIUM \<longleftrightarrow> binary64 0.30 \<le> s \<and> s < binary64 0.50)
   \<and> (classify s = LOW \<longleftrightarrow> s < binary64 0.30)"
    using o unfolding classify_def by auto
  have doubles: "classify (binary64 0.70) = CRITICAL \<and> classify (binary64 0.6999) = HIGH
   \<and> classify (binary64 0.50) = HIGH \<and> classify (binary64 0.4999) = MEDIUM
   \<and> classify (binary64 0.30) = MEDIUM \<and> classify (binary64 0.2999) = LOW"
    by code_simp
  have decimals: "classify 0.70 = CRITICAL \<and> classify 0.6999 = HIGH
   \<and> classify 0.50 = HIGH \<and> classify 0.4999 = MEDIUM
   \<and> classify 0.30 = MEDIUM \<and> classify 0.2999 = LOW"
    by code_simp
  have near: "binary64 0.70 \<le> 0.70 \<and> 0.70 - binary64 0.70 < 1 / 10 ^ 16
   \<and> binary64 0.50 = 0.50
   \<and> binary64 0.30 \<le> 0.30 \<and> 0.30 - binary64 0.30 < 1 / 10 ^ 16"
    by code_simp
  from bands doubles decimals near show ?thesis by blast
qed

theorem classify_thresholds_witness:
  "classify 0.85 = CRITICAL \<and> classify 0.55 = HIGH \<and> classify 0.45 = MEDIUM \<and> classify 0.08 = LOW"
proof -
  have f: "binary64 0.70 \<le> 0.85" "binary64 0.50 \<le> 0.55" "(0.55::rat) < binary64 0.70"
    "binary64 0.30 \<le> 0.45" "(0.45::rat) < binary64 0.50" "(0.08::rat) < binary64 0.30"
    by code_simp+
  have "classify 0.85 = CRITICAL"
    using classify_thresholds [of "0.85", THEN conjunct1] f(1) by simp
  moreover have "classify 0.55 = HIGH"
    using classify_thresholds [of "0.55", THEN conjunct2, THEN conjunct1] f(2,3) by simp
  moreover have "classify 0.45 = MEDIUM"
    using classify_thresholds [of "0.45", THEN conjunct2, THEN conjunct2, THEN conjunct1] f(4,5)
    by simp
  moreover have "classify 0.08 = LOW"
    using classify_thresholds [of "0.08", THEN conjunct2, THEN conjunct2, THEN conjunct2,
        THEN conjunct1] f(6)
    by simp
  ultimately show ?thesis by simp
qed

subsection \<open>Storing and alerting\<close>




text \<open>
  C4.  A payload with neither \<open>id\<close> nor \<open>transactionId\<close> is dropped: the handler returns,
  both collections are as before, and the console carries one diagnostic line.
\<close>

theorem unidentified_message_discarded:
  assumes "field txn ''id'' = None" and "field txn ''transactionId'' = None"
  shows "\<exists>st'. eachMessage w (Payload txn) st = Returns st'
     \<and> transactions st' = transactions st \<and> alerts st' = alerts st
     \<and> console st' = console st @ [if txn = JNull then ProcessingError TypeError else Skipping]"
  using assms by (simp add: eachMessage_def try_body_def js_or_def log_def)

theorem unidentified_message_discarded_witness:
  "eachMessage day_world (Payload anonymous_payload) empty_state =
     Returns \<lparr>transactions = [], alerts = [], console = [Skipping]\<rparr>"
proof -
  have "field anonymous_payload ''id'' = None" "field anonymous_payload ''transactionId'' = None"
    "anonymous_payload \<noteq> JNull"
    by (simp_all add: anonymous_payload_def)
  then show ?thesis
    using unidentified_message_discarded [of anonymous_payload day_world empty_state]
    by (auto simp: empty_state_def)
qed

text \<open>
  C10.  When the store refuses the transaction write, no alert is written for that
  message, whatever the score; and whenever the handler does add an alert, it has
  added the transaction document first.
\<close>

theorem no_alert_without_stored_transaction:
  "(\<not> Transaction_sink_ok w \<longrightarrow>
      alerts (outcome (eachMessage w m st)) = alerts st
      \<and> transactions (outcome (eachMessage w m st)) = transactions st)
   \<and> (alerts (outcome (eachMessage w m st)) \<noteq> alerts st \<longrightarrow>
      Transaction_sink_ok w
      \<and> (\<exists>doc. transactions (outcome (eachMessage w m st)) = transactions st @ [doc]))"
proof -
  from try_body_collections [of w m st]
  show ?thesis
  proof (elim disjE exE conjE)
    assume "transactions (fst (try_body w m st)) = transactions st"
      and "alerts (fst (try_body w m st)) = alerts st"
    then show ?thesis by (simp add: outcome_collections)
  next
    fix tid name txn a d
    assume "fst (try_body w m st) = fst (persist w tid name txn a d
             (log (Result name (score a) (classify (score a))) (log (Processing name) st)))"
    then show ?thesis
      by (simp add: outcome_collections persist_transactions persist_alerts log_def)
  qed
qed

theorem no_alert_without_stored_transaction_witness:
  "\<not> Transaction_sink_ok refusing_world
   \<and> computed_score refusing_world threshold_payload = Some (binary64 0.40)
   \<and> alerts (outcome (eachMessage refusing_world (Payload threshold_payload) empty_state)) = []
   \<and> transactions (outcome (eachMessage refusing_world (Payload threshold_payload) empty_state)) = []"
proof -
  have r: "\<not> Transaction_sink_ok refusing_world"
    by (simp add: refusing_world_def)
  have "computed_score refusing_world threshold_payload = Some (binary64 0.40)"
    by code_simp
  with r show ?thesis
    using no_alert_without_stored_transaction [of refusing_world "Payload threshold_payload" empty_state]
    by (simp add: empty_state_def)
qed

subsection \<open>Errors stay inside the handler\<close>

text \<open>
  C8.  The handler returns for every message in every world and state; an error raised
  in the \<open>try\<close> body (parsing, evaluation or a refused write) ends up as one console line.
  So the consume loop hands every delivery to the handler, each one starting from the
  state its predecessor left.  Only a failure of one of the three start-up calls to the
  transport makes the process exit, with code 1 and before any message is handled.
\<close>

theorem message_errors_contained:
  "(\<exists>st'. eachMessage w m st = Returns st')
   \<and> (\<forall>st1 e. try_body w m st = (st1, Some e) \<longrightarrow>
        eachMessage w m st = Returns (log (ProcessingError e) st1))
   \<and> (\<exists>st'. consume ds st = Returns st')
   \<and> consume ((w, m) # ds) st = consume ds (outcome (eachMessage w m st))
   \<and> consume (ds @ ds') st = consume ds' (outcome (consume ds st))
   \<and> (fst (service t ds st) = Running \<longleftrightarrow>
        producer_connect_ok t \<and> consumer_connect_ok t \<and> subscribe_ok t)
   \<and> (fst (service t ds st) \<noteq> Running \<longrightarrow> service t ds st = (Exited 1, Returns st))
   \<and> (\<exists>st'. snd (service t ds st) = Returns st')"
proof (intro conjI allI impI)
  show "\<exists>st'. eachMessage w m st = Returns st'"
    using eachMessage_returns by blast
  show "\<exists>st'. consume ds st = Returns st'"
    by (rule consume_returns)
  obtain st1 where e: "eachMessage w m st = Returns st1"
    using eachMessage_returns [of w m st] by blast
  then show "consume ((w, m) # ds) st = consume ds (outcome (eachMessage w m st))"
    by simp
  show "consume (ds @ ds') st = consume ds' (outcome (consume ds st))"
    by (rule consume_append)
  obtain st2 where c: "consume ds st = Returns st2"
    using consume_returns by blast
  show "fst (service t ds st) = Running \<longleftrightarrow>
        producer_connect_ok t \<and> consumer_connect_ok t \<and> subscribe_ok t"
    by (simp add: service_def startup_def c)
  show "\<exists>st'. snd (service t ds st) = Returns st'"
    by (simp add: service_def startup_def c)
  assume "fst (service t ds st) \<noteq> Running"
  then show "service t ds st = (Exited 1, Returns st)"
    by (simp add: service_def startup_def c split: if_splits)
next
  fix st1 e
  assume "try_body w m st = (st1, Some e)"
  then show "eachMessage w m st = Returns (log (ProcessingError e) st1)"
    by (simp add: eachMessage_def)
qed

theorem message_errors_contained_witness:
  "try_body refusing_world (Payload threshold_payload) empty_state =
     (\<lparr>transactions = [], alerts = [],
       console = [Processing ''t1'', Result ''t1'' (3602879701896397 / 9007199254740992) MEDIUM]\<rparr>,
      Some PersistenceFailure)
   \<and> (\<exists>st'. consume sample_deliveries empty_state = Returns st'
        \<and> map transactionId (transactions st') = [JStr ''t2'']
        \<and> console st' =
            [ProcessingError TypeError, ProcessingError SyntaxError, ProcessingError TypeError,
             Processing ''t1'', Result ''t1'' (3602879701896397 / 9007199254740992) MEDIUM,
             ProcessingError PersistenceFailure,
             Processing ''t2'', Result ''t2'' (5404319552844595 / 18014398509481984) MEDIUM,
             TransactionSaved ''t2'', MarkedClean ''t2'' (5404319552844595 / 18014398509481984)])
   \<and> service unreachable_transport sample_deliveries empty_state = (Exited 1, Returns empty_state)"
proof -
  have t1: "try_body refusing_world (Payload threshold_payload) empty_state =
     (\<lparr>transactions = [], alerts = [],
       console = [Processing ''t1'', Result ''t1'' (3602879701896397 / 9007199254740992) MEDIUM]\<rparr>,
      Some PersistenceFailure)"
    by code_simp
  have m4: "eachMessage refusing_world (Payload threshold_payload) empty_state =
      Returns (log (ProcessingError PersistenceFailure)
        \<lparr>transactions = [], alerts = [],
         console = [Processing ''t1'', Result ''t1'' (3602879701896397 / 9007199254740992) MEDIUM]\<rparr>)"
    using message_errors_contained [of refusing_world "Payload threshold_payload" empty_state "[]" "[]"
        unreachable_transport] t1
    by blast
  have c: "consume sample_deliveries empty_state = Returns
      \<lparr>transactions = [txn_doc (JStr ''t2'') quiet_payload
               \<lparr>score = 5404319552844595 / 18014398509481984,
                indicators = [\<lparr>code = ''CVV_VERIFICATION_FAILED'',
                  message = ''CVV verification failed''\<rparr>]\<rparr> (Valid 1700049600000)],
       alerts = [],
       console = [ProcessingError TypeError, ProcessingError SyntaxError, ProcessingError TypeError,
         Processing ''t1'', Result ''t1'' (3602879701896397 / 9007199254740992) MEDIUM,
         ProcessingError PersistenceFailure,
         Processing ''t2'', Result ''t2'' (5404319552844595 / 18014398509481984) MEDIUM,
         TransactionSaved ''t2'', MarkedClean ''t2'' (5404319552844595 / 18014398509481984)]\<rparr>"
    by code_simp
  have s: "service unreachable_transport sample_deliveries empty_state = (Exited 1, Returns empty_state)"
    using message_errors_contained [of day_world NoValue empty_state sample_deliveries "[]"
        unreachable_transport]
    by (simp add: unreachable_transport_def)
  show ?thesis
    using t1 m4 c s by (simp add: txn_doc_def)
qed

subsection \<open>Reviewing an alert\<close>

lemma findOneAndUpdate_absent:
  "aid \<notin> alertId ` set xs \<Longrightarrow> findOneAndUpdate aid f xs = (xs, None)"
  by (induction xs) auto

lemma findOneAndUpdate_present:
  "aid \<notin> alertId ` set pre \<Longrightarrow> alertId a = aid \<Longrightarrow>
   findOneAndUpdate aid f (pre @ a # post) = (pre @ f a # post, Some (f a))"
  by (induction pre) auto

text \<open>
  As the claim words it, an unknown \<open>alertId\<close> is answered with a not-found outcome, and
  a review of a stored alert sets \<open>status\<close> to the request's action.  The endpoint
  answers an unknown \<open>alertId\<close> with status 200 and \<open>success: true\<close>, the data being
  \<open>null\<close>.  A request that carries a comment only leaves the \<open>status\<close> of the stored alert
  at PENDING.
\<close>

theorem review_counterexample:
  "put_alert day_world ''ALERT-unknown'' sample_review (empty_state\<lparr>alerts := [sample_alert]\<rparr>) =
     (empty_state\<lparr>alerts := [sample_alert]\<rparr>,
      \<lparr>http_status = 200, body_success = True, body_data = None\<rparr>)
   \<and> \<not> not_found_outcome \<lparr>http_status = 200, body_success = True, body_data = None\<rparr>
   \<and> review_action comment_only_review = None
   \<and> map status (alerts (fst (put_alert day_world ''ALERT1700049600000k3x9q'' comment_only_review
         (empty_state\<lparr>alerts := [sample_alert]\<rparr>)))) = [Some ''PENDING'']
   \<and> map comments (alerts (fst (put_alert day_world ''ALERT1700049600000k3x9q'' comment_only_review
         (empty_state\<lparr>alerts := [sample_alert]\<rparr>)))) = [Some ''seen'']"
  by (simp add: put_alert_def not_found_outcome_def apply_update_def set_key_def sample_alert_def
      alert_doc_def comment_only_review_def sample_review_def day_world_def empty_state_def)

text \<open>
  C5 (amended).  With an \<open>alertId\<close> that no stored alert has, the update writes nothing
  and the endpoint answers with status 200, \<open>success: true\<close> and \<open>data: null\<close>.  With an
  \<open>alertId\<close> that some stored alert has, the first such alert is updated in one step and
  the updated record is the answer: \<open>status\<close> and \<open>action\<close> become the request's action,
  \<open>comments\<close> and \<open>assignedTo\<close> the request's values, each only if the request carries
  it, a field the request omits keeps its stored value; \<open>reviewedAt\<close> becomes the time of
  the request; the other seven fields and all other alerts stay as they are.
\<close>

theorem review_sets_five_fields:
  "(aid \<notin> alertId ` set (alerts st) \<longrightarrow>
      alerts (fst (put_alert w aid r st)) = alerts st
      \<and> transactions (fst (put_alert w aid r st)) = transactions st
      \<and> (Alert_sink_ok w \<longrightarrow>
           put_alert w aid r st =
             (st, \<lparr>http_status = 200, body_success = True, body_data = None\<rparr>)))
   \<and> (Alert_sink_ok w \<and> alerts st = pre @ a # post \<and> aid \<notin> alertId ` set pre \<and> alertId a = aid \<longrightarrow>
      put_alert w aid r st =
        (st\<lparr>alerts := pre @ apply_update w r a # post\<rparr>,
         \<lparr>http_status = 200, body_success = True, body_data = Some (apply_update w r a)\<rparr>))
   \<and> status (apply_update w r a) = (case review_action r of None \<Rightarrow> status a | Some x \<Rightarrow> Some x)
   \<and> action (apply_update w r a) = (case review_action r of None \<Rightarrow> action a | Some x \<Rightarrow> Some x)
   \<and> comments (apply_update w r a) =
       (case review_comments r of None \<Rightarrow> comments a | Some x \<Rightarrow> Some x)
   \<and> assignedTo (apply_update w r a) =
       (case review_assignedTo r of None \<Rightarrow> assignedTo a | Some x \<Rightarrow> Some x)
   \<and> reviewedAt (apply_update w r a) = Some (Valid (clock w))
   \<and> alertId (apply_update w r a) = alertId a
   \<and> alert_transactionId (apply_update w r a) = alert_transactionId a
   \<and> transaction (apply_update w r a) = transaction a
   \<and> alert_mlScore (apply_update w r a) = alert_mlScore a
   \<and> alert_riskLevel (apply_update w r a) = alert_riskLevel a
   \<and> reasons (apply_update w r a) = reasons a
   \<and> createdAt (apply_update w r a) = createdAt a"
proof -
  have absent: "aid \<notin> alertId ` set (alerts st) \<longrightarrow>
      alerts (fst (put_alert w aid r st)) = alerts st
      \<and> transactions (fst (put_alert w aid r st)) = transactions st
      \<and> (Alert_sink_ok w \<longrightarrow>
           put_alert w aid r st =
             (st, \<lparr>http_status = 200, body_success = True, body_data = None\<rparr>))"
    by (simp add: put_alert_def findOneAndUpdate_absent log_def)
  have present: "Alert_sink_ok w \<and> alerts st = pre @ a # post \<and> aid \<notin> alertId ` set pre \<and> alertId a = aid \<longrightarrow>
      put_alert w aid r st =
        (st\<lparr>alerts := pre @ apply_update w r a # post\<rparr>,
         \<lparr>http_status = 200, body_success = True, body_data = Some (apply_update w r a)\<rparr>)"
    by (simp add: put_alert_def findOneAndUpdate_present)
  show ?thesis using absent present by (simp add: apply_update_def set_key_def)
qed

theorem review_sets_five_fields_witness:
  "put_alert day_world ''ALERT1700049600000k3x9q'' sample_review (empty_state\<lparr>alerts := [sample_alert]\<rparr>) =
     (empty_state\<lparr>alerts := [sample_alert\<lparr>status := Some ''CONFIRMED_FRAUD'',
         action := Some ''CONFIRMED_FRAUD'', comments := Some ''card blocked'',
         assignedTo := Some ''analyst1'', reviewedAt := Some (Valid 1700049600000)\<rparr>]\<rparr>,
      \<lparr>http_status = 200, body_success = True,
       body_data = Some (sample_alert\<lparr>status := Some ''CONFIRMED_FRAUD'',
         action := Some ''CONFIRMED_FRAUD'', comments := Some ''card blocked'',
         assignedTo := Some ''analyst1'', reviewedAt := Some (Valid 1700049600000)\<rparr>)\<rparr>)
   \<and> put_alert day_world ''ALERT-unknown'' sample_review (empty_state\<lparr>alerts := [sample_alert]\<rparr>) =
     (empty_state\<lparr>alerts := [sample_alert]\<rparr>,
      \<lparr>http_status = 200, body_success = True, body_data = None\<rparr>)"
proof -
  have ok: "Alert_sink_ok day_world" by (simp add: day_world_def)
  have id: "alertId sample_alert = ''ALERT1700049600000k3x9q''"
    by (simp add: sample_alert_def alert_doc_def day_world_def)
  have u: "apply_update day_world sample_review sample_alert =
      sample_alert\<lparr>status := Some ''CONFIRMED_FRAUD'',
         action := Some ''CONFIRMED_FRAUD'', comments := Some ''card blocked'',
         assignedTo := Some ''analyst1'', reviewedAt := Some (Valid 1700049600000)\<rparr>"
    by (simp add: apply_update_def set_key_def sample_review_def day_world_def)
  have "put_alert day_world ''ALERT-unknown'' sample_review (empty_state\<lparr>alerts := [sample_alert]\<rparr>) =
     (empty_state\<lparr>alerts := [sample_alert]\<rparr>,
      \<lparr>http_status = 200, body_success = True, body_data = None\<rparr>)"
    using review_sets_five_fields [of "''ALERT-unknown''" "empty_state\<lparr>alerts := [sample_alert]\<rparr>"
        day_world sample_review "[]" sample_alert "[]"] ok id
    by simp
  moreover have "put_alert day_world ''ALERT1700049600000k3x9q'' sample_review (empty_state\<lparr>alerts := [sample_alert]\<rparr>) =
     (empty_state\<lparr>alerts := [apply_update day_world sample_review sample_alert]\<rparr>,
      \<lparr>http_status = 200, body_success = True,
       body_data = Some (apply_update day_world sample_review sample_alert)\<rparr>)"
    using review_sets_five_fields [of "''ALERT1700049600000k3x9q''" "empty_state\<lparr>alerts := [sample_alert]\<rparr>"
        day_world sample_review "[]" sample_alert "[]"] ok id
    by simp
  ultimately show ?thesis by (simp add: u)
qed

subsection \<open>Effective timestamp\<close>

text \<open>
  C6.  The claim asks for the processing time whenever the \<open>timestamp\<close> field does not
  parse.  Line 136 only tests the field for truthiness: for the string \<open>garbage\<close> it
  constructs an Invalid Date.  The time-of-day rule does not fire on it, the
  transaction write is rejected by the schema's \<open>Date\<close> cast, and the message, whose
  score of 0.40 calls for an alert, leaves neither a transaction nor an alert behind.
  With the processing time in its place the same payload is stored and alerted.
\<close>

theorem unparseable_timestamp_loses_transaction:
  "field garbled_time_payload ''timestamp'' = Some (JStr ''garbage'')
   \<and> txnTime day_world garbled_time_payload = Inr InvalidDate
   \<and> effective_timestamp_spec day_world garbled_time_payload = Valid (clock day_world)
   \<and> eachMessage day_world (Payload garbled_time_payload) empty_state =
       Returns \<lparr>transactions = [], alerts = [],
         console = [Processing ''t3'', Result ''t3'' (3602879701896397 / 9007199254740992) MEDIUM,
                    ProcessingError ValidationError]\<rparr>
   \<and> binary64 0.40 \<le> 3602879701896397 / 9007199254740992
   \<and> map timestamp (transactions (outcome (eachMessage day_world (Payload threshold_payload) empty_state)))
       = [Valid (clock day_world)]
   \<and> map status (alerts (outcome (eachMessage day_world (Payload threshold_payload) empty_state)))
       = [Some ''PENDING'']"
  by code_simp

subsection \<open>The score is bounded\<close>

text \<open>
  As the claim words it, every bound is exceeded by some payload's score.  No payload
  scores above 3.
\<close>

theorem unbounded_score_counterexample:
  "\<not> (\<forall>B. \<exists>w txn a d. evaluate w txn = Inr (a, d) \<and> score a > B)"
proof
  assume "\<forall>B. \<exists>w txn a d. evaluate w txn = Inr (a, d) \<and> score a > B"
  then obtain w txn a d where "evaluate w txn = Inr (a, d)" and "score a > 3"
    by blast
  then show False using score_bounds [of w txn a d] by (simp add: highest_score_def)
qed

text \<open>
  C7 (amended).  The score is bounded: whenever evaluation completes it is at least 0
  and at most the double printed \<open>2.5300000000000002\<close>, which is what the eleven weights
  that can fire together add up to in binary64, lies between 2.53 and 3, and is the
  score stored for a payload on which all of these rules fire.
\<close>

theorem score_bounded:
  "(\<forall>a d. evaluate w txn = Inr (a, d) \<longrightarrow> 0 \<le> score a \<and> score a \<le> highest_score)
   \<and> 2.53 < highest_score \<and> highest_score < 3
   \<and> map mlScore (transactions (outcome (eachMessage day_world (Payload saturating_payload) empty_state)))
       = [highest_score]"
proof (intro conjI allI impI)
  fix a d
  assume e: "evaluate w txn = Inr (a, d)"
  show "0 \<le> score a" "score a \<le> highest_score"
    using score_bounds [OF e] by simp_all
next
  show "2.53 < highest_score" "highest_score < 3"
    by (simp_all add: highest_score_def)
  show "map mlScore (transactions (outcome (eachMessage day_world (Payload saturating_payload) empty_state)))
       = [highest_score]"
    by code_simp
qed

theorem score_bounded_witness:
  "(\<exists>a. evaluate day_world threshold_payload = Inr (a, Valid 1700049600000)
        \<and> score a = 3602879701896397 / 9007199254740992)
   \<and> (0::rat) \<le> 3602879701896397 / 9007199254740992
   \<and> (3602879701896397 / 9007199254740992 :: rat) \<le> highest_score
   \<and> map mlScore (transactions (outcome (eachMessage day_world (Payload saturating_payload) empty_state)))
       = [highest_score]"
  using score_bounded [of day_world threshold_payload] threshold_payload_evaluate
  by simp

subsection \<open>Fields of the wrong type\<close>

text \<open>
  C9.  When \<open>amount\<close> is not a number, the amount rule leaves score and indicators as they
  are and no UNUSUAL_TRANSACTION_AMOUNT indicator is among those of the evaluation.
  When \<open>previousDeclines\<close> is not an integer number, such as 3.5 or the string \<open>5\<close>, the
  same holds of the decline rule and CARD_TESTING_PATTERN.
\<close>

theorem wrongly_typed_fields_do_not_fire:
  "((\<forall>x. field txn ''amount'' \<noteq> Some (JNum x)) \<longrightarrow>
      amount_rule w txn a0 = a0
      \<and> (\<forall>a d. evaluate w txn = Inr (a, d) \<longrightarrow>
            ''UNUSUAL_TRANSACTION_AMOUNT'' \<notin> code ` set (indicators a)))
   \<and> (\<not> Number_isInteger (field txn ''previousDeclines'') \<longrightarrow>
      declines_rule w txn a0 = a0
      \<and> (\<forall>a d. evaluate w txn = Inr (a, d) \<longrightarrow>
            ''CARD_TESTING_PATTERN'' \<notin> code ` set (indicators a)))
   \<and> \<not> Number_isInteger (Some (JNum 3.5))
   \<and> \<not> Number_isInteger (Some (JStr ''5''))"
proof (intro conjI allI impI)
  assume n: "\<forall>x. field txn ''amount'' \<noteq> Some (JNum x)"
  then have nn: "numeric (field txn ''amount'') = None"
    by (cases "field txn ''amount''" rule: numeric.cases) simp_all
  then show "amount_rule w txn a0 = a0"
    by (simp add: amount_rule_def number_and_numeric)
  fix a d
  assume "evaluate w txn = Inr (a, d)"
  then show "''UNUSUAL_TRANSACTION_AMOUNT'' \<notin> code ` set (indicators a)"
    using nn by (simp add: amount_code_iff amount_high_def amount_medium_def)
next
  assume n: "\<not> Number_isInteger (field txn ''previousDeclines'')"
  then show "declines_rule w txn a0 = a0"
    by (simp add: declines_rule_def)
  fix a d
  assume "evaluate w txn = Inr (a, d)"
  then show "''CARD_TESTING_PATTERN'' \<notin> code ` set (indicators a)"
    using n by (auto simp: declines_code_iff declines_at_least_3_def Number_isInteger_iff
        split: option.splits)
next
  have "\<lfloor>3.5::rat\<rfloor> = 3" by (simp add: floor_eq_iff)
  then show "\<not> Number_isInteger (Some (JNum 3.5))" by simp
  show "\<not> Number_isInteger (Some (JStr ''5''))" by simp
qed

theorem wrongly_typed_fields_do_not_fire_witness:
  "evaluate day_world string_amount_payload =
     Inr (\<lparr>score = 0, indicators = []\<rparr>, Valid 1700049600000)
   \<and> evaluate day_world fractional_declines_payload =
     Inr (\<lparr>score = 0, indicators = []\<rparr>, Valid 1700049600000)
   \<and> amount_rule day_world string_amount_payload \<lparr>score = 0, indicators = []\<rparr>
       = \<lparr>score = 0, indicators = []\<rparr>
   \<and> declines_rule day_world fractional_declines_payload \<lparr>score = 0, indicators = []\<rparr>
       = \<lparr>score = 0, indicators = []\<rparr>"
proof -
  have f: "\<forall>x. field string_amount_payload ''amount'' \<noteq> Some (JNum x)"
    by (simp add: string_amount_payload_def)
  have "\<lfloor>3.5::rat\<rfloor> = 3" by (simp add: floor_eq_iff)
  then have g: "\<not> Number_isInteger (field fractional_declines_payload ''previousDeclines'')"
    by (simp add: fractional_declines_payload_def)
  have e: "evaluate day_world string_amount_payload =
     Inr (\<lparr>score = 0, indicators = []\<rparr>, Valid 1700049600000)"
    "evaluate day_world fractional_declines_payload =
     Inr (\<lparr>score = 0, indicators = []\<rparr>, Valid 1700049600000)"
    by code_simp+
  show ?thesis
    using wrongly_typed_fields_do_not_fire [of string_amount_payload day_world "\<lparr>score = 0, indicators = []\<rparr>"]
      wrongly_typed_fields_do_not_fire [of fractional_declines_payload day_world "\<lparr>score = 0, indicators = []\<rparr>"]
      f g e
    by simp
qed

end
